theory Spec2Isabelle
  imports Main
begin

section \<open>Data model (shared/schema.ts)\<close>

text \<open>
  The tables of the schema are modelled as lists of rows, in storage order. Columns that
  the schema declares nullable are \<open>option\<close>s (\<open>None\<close> is SQL \<open>NULL\<close>, JavaScript
  \<open>null\<close>). Integer columns are \<open>int\<close>; the 32-bit range of the column type
  is checked where a handler writes (see \<open>insertAccepted\<close> and \<open>updateAccepted\<close>
  below). Timestamps are natural numbers. Text is \<open>string\<close>. Field names are the source's, with a prefix
  per table where a name would clash: \<open>bid\<close> is \<open>bookings.id\<close>, \<open>c_\<close> marks a
  cancellation's columns, \<open>u_\<close> a user's, \<open>i_\<close> the fields of \<open>InsertBooking\<close>,
  \<open>e_\<close> those of an edit request and \<open>m_\<close> those of a merge request.
\<close>

record user =
  u_id :: string
  u_name :: string
  u_phone :: "string option"
  u_role :: string

record booking =
  bid :: string
  roomNumber :: int
  userId :: string
  userName :: string
  userPhone :: "string option"
  date :: string
  startHour :: "int option"
  duration :: "int option"
  bookingType :: string
  price :: int
  paid :: "bool option"
  paymentMethod :: "string option"
  paidAmount :: "int option"
  isDebtor :: "bool option"
  extraTime :: "int option"
  createdAt :: "nat option"

record cancellation =
  c_id :: string
  c_userId :: string
  c_userName :: string
  c_userPhone :: "string option"
  c_roomNumber :: int
  c_date :: string
  c_bookingType :: string
  c_price :: int
  c_cancelledAt :: "nat option"

text \<open>
  A field of a request body that the code tells apart from \<open>null\<close> when it is missing
  (\<open>x !== undefined\<close>, or a column default that applies to a missing value only).
\<close>

datatype 'a field = Absent | Null | Val 'a

text \<open>
  \<open>InsertBooking\<close>: a booking without \<open>id\<close> and \<open>createdAt\<close>. For the nullable columns
  without a default, a missing field and \<open>null\<close> are stored and read alike, so they
  are one \<open>None\<close>.
\<close>

record insert_booking =
  i_roomNumber :: int
  i_userId :: string
  i_userName :: string
  i_userPhone :: "string option"
  i_date :: string
  i_startHour :: "int option"
  i_duration :: "int option"
  i_bookingType :: string
  i_price :: int
  i_paid :: "bool field"
  i_paymentMethod :: "string option"
  i_paidAmount :: "int option"
  i_isDebtor :: "bool field"
  i_extraTime :: "int field"

record state =
  users :: "user list"
  bookings :: "booking list"
  cancellations :: "cancellation list"

section \<open>Phone normalizer (normalizePhone)\<close>

definition isDigit :: "char \<Rightarrow> bool" where
  "isDigit c \<longleftrightarrow> c \<in> set ''0123456789''"

definition startsWith :: "string \<Rightarrow> string \<Rightarrow> bool" where
  "startsWith pre s \<longleftrightarrow> take (length pre) s = pre"

text \<open>
  \<open>if (!phone) return ''\<close>: \<open>null\<close>, \<open>undefined\<close> and the empty string are falsy.
  \<open>replace(/[^0-9]/g, '')\<close> keeps the ASCII digits.
\<close>

definition normalizePhone :: "string option \<Rightarrow> string" where
  "normalizePhone phone =
     (case phone of
        None \<Rightarrow> []
      | Some p \<Rightarrow>
          if p = [] then []
          else
            let digits = filter isDigit p in
            if startsWith ''7'' digits \<and> length digits = 11 then drop 1 digits
            else if startsWith ''8'' digits \<and> length digits = 11 then drop 1 digits
            else digits)"

section \<open>JavaScript idioms\<close>

text \<open>\<open>x || 0\<close> on a nullable integer.\<close>

definition orZero :: "int option \<Rightarrow> int" where
  "orZero x = (case x of None \<Rightarrow> 0 | Some v \<Rightarrow> v)"

text \<open>Truthiness of a nullable string: \<open>null\<close> and \<open>''\<close> are falsy.\<close>

definition truthy :: "string option \<Rightarrow> bool" where
  "truthy x = (case x of None \<Rightarrow> False | Some p \<Rightarrow> p \<noteq> [])"

text \<open>\<open>x || y\<close> where \<open>x\<close> comes from a request body: a missing field, \<open>0\<close> and \<open>''\<close> give \<open>y\<close>.\<close>

definition orElseInt :: "int option \<Rightarrow> int \<Rightarrow> int" where
  "orElseInt x y = (case x of None \<Rightarrow> y | Some v \<Rightarrow> if v = 0 then y else v)"

definition orElseStr :: "string option \<Rightarrow> string \<Rightarrow> string" where
  "orElseStr x y = (case x of None \<Rightarrow> y | Some v \<Rightarrow> if v = [] then y else v)"

text \<open>\<open>x !== undefined ? x : y\<close>.\<close>

definition ifDefined :: "int field \<Rightarrow> int option \<Rightarrow> int option" where
  "ifDefined x y = (case x of Absent \<Rightarrow> y | Null \<Rightarrow> None | Val v \<Rightarrow> Some v)"

text \<open>What a column with a default stores for a field of an insert.\<close>

definition withDefault :: "'a field \<Rightarrow> 'a \<Rightarrow> 'a option" where
  "withDefault x d = (case x of Absent \<Rightarrow> Some d | Null \<Rightarrow> None | Val v \<Rightarrow> Some v)"

section \<open>Storage layer (server/storage.ts, class DatabaseStorage)\<close>

text \<open>
  A query without \<open>orderBy\<close> returns the matching rows in storage order. \<open>result[0]\<close> of
  such a query is its first row, \<open>undefined\<close> (here \<open>None\<close>) when there is none.
  Identifiers and timestamps that the database generates (\<open>gen_random_uuid()\<close>,
  \<open>now()\<close>) are arguments of the operations that insert.
\<close>

definition getUserByPhone :: "state \<Rightarrow> string \<Rightarrow> user option" where
  "getUserByPhone s phone = find (\<lambda>u. u_phone u = Some phone) (users s)"

text \<open>
  \<open>ORDER BY\<close>: a stable insertion sort by the query's order. Text is compared byte by
  byte; \<open>NULL\<close> sorts last ascending and first descending.
\<close>

fun strLess :: "string \<Rightarrow> string \<Rightarrow> bool" where
  "strLess [] [] = False"
| "strLess [] (y # ys) = True"
| "strLess (x # xs) [] = False"
| "strLess (x # xs) (y # ys) =
     ((of_char x :: nat) < of_char y \<or> (x = y \<and> strLess xs ys))"

fun insortBy :: "('a \<Rightarrow> 'a \<Rightarrow> bool) \<Rightarrow> 'a \<Rightarrow> 'a list \<Rightarrow> 'a list" where
  "insortBy le x [] = [x]"
| "insortBy le x (y # ys) = (if le x y then x # y # ys else y # insortBy le x ys)"

definition sortBy :: "('a \<Rightarrow> 'a \<Rightarrow> bool) \<Rightarrow> 'a list \<Rightarrow> 'a list" where
  "sortBy le xs = foldr (insortBy le) xs []"

text \<open>\<open>orderBy(desc(bookings.date), bookings.startHour)\<close>.\<close>

definition bookingOrder :: "booking \<Rightarrow> booking \<Rightarrow> bool" where
  "bookingOrder a b \<longleftrightarrow>
     strLess (date b) (date a) \<or>
     (date a = date b \<and>
      (case startHour b of
         None \<Rightarrow> True
       | Some y \<Rightarrow> (case startHour a of None \<Rightarrow> False | Some x \<Rightarrow> x \<le> y)))"

text \<open>\<open>orderBy(desc(cancellations.cancelledAt))\<close>.\<close>

definition cancellationOrder :: "cancellation \<Rightarrow> cancellation \<Rightarrow> bool" where
  "cancellationOrder a b \<longleftrightarrow>
     (case c_cancelledAt a of
        None \<Rightarrow> True
      | Some x \<Rightarrow> (case c_cancelledAt b of None \<Rightarrow> False | Some y \<Rightarrow> y \<le> x))"

definition getBookings :: "state \<Rightarrow> booking list" where
  "getBookings s = sortBy bookingOrder (bookings s)"

definition getBookingsByDate :: "state \<Rightarrow> string \<Rightarrow> booking list" where
  "getBookingsByDate s d = filter (\<lambda>b. date b = d) (bookings s)"

definition getBookingsByRoom :: "state \<Rightarrow> int \<Rightarrow> string \<Rightarrow> booking list" where
  "getBookingsByRoom s r d = filter (\<lambda>b. roomNumber b = r \<and> date b = d) (bookings s)"

definition getBooking :: "state \<Rightarrow> string \<Rightarrow> booking option" where
  "getBooking s i = find (\<lambda>b. bid b = i) (bookings s)"

definition insertRow :: "insert_booking \<Rightarrow> string \<Rightarrow> nat \<Rightarrow> booking" where
  "insertRow data newId now =
     \<lparr> bid = newId,
       roomNumber = i_roomNumber data,
       userId = i_userId data,
       userName = i_userName data,
       userPhone = i_userPhone data,
       date = i_date data,
       startHour = i_startHour data,
       duration = i_duration data,
       bookingType = i_bookingType data,
       price = i_price data,
       paid = withDefault (i_paid data) False,
       paymentMethod = i_paymentMethod data,
       paidAmount = i_paidAmount data,
       isDebtor = withDefault (i_isDebtor data) False,
       extraTime = withDefault (i_extraTime data) 0,
       createdAt = Some now \<rparr>"

definition createBooking :: "state \<Rightarrow> insert_booking \<Rightarrow> string \<Rightarrow> nat \<Rightarrow> state \<times> booking" where
  "createBooking s data newId now =
     (let row = insertRow data newId now in (s\<lparr>bookings := bookings s @ [row]\<rparr>, row))"

definition deleteBooking :: "state \<Rightarrow> string \<Rightarrow> state" where
  "deleteBooking s i = s\<lparr>bookings := filter (\<lambda>b. bid b \<noteq> i) (bookings s)\<rparr>"

definition updateBookingClient :: "state \<Rightarrow> string \<Rightarrow> string \<Rightarrow> string \<Rightarrow> string \<Rightarrow> state" where
  "updateBookingClient s i uid uname uphone =
     s\<lparr>bookings :=
         map (\<lambda>b. if bid b = i
                  then b\<lparr>userId := uid, userName := uname, userPhone := Some uphone\<rparr>
                  else b) (bookings s)\<rparr>"

definition updateBookingDetails ::
  "state \<Rightarrow> string \<Rightarrow> int \<Rightarrow> string \<Rightarrow> int option \<Rightarrow> int option \<Rightarrow> string \<Rightarrow> int \<Rightarrow> state" where
  "updateBookingDetails s i room d start dur ty pr =
     s\<lparr>bookings :=
         map (\<lambda>b. if bid b = i
                  then b\<lparr>roomNumber := room, date := d, startHour := start,
                         duration := dur, bookingType := ty, price := pr\<rparr>
                  else b) (bookings s)\<rparr>"

text \<open>
  The schema declares the numeric columns of \<open>bookings\<close> as \<open>integer\<close>, which is
  32-bit. An \<open>INSERT\<close> or \<open>UPDATE\<close> that carries a value outside that range is refused
  by the database: the storage call throws, nothing is written, and the handler's
  \<open>catch\<close> answers 500. \<open>insertAccepted\<close> and \<open>updateAccepted\<close> say when the call of
  \<open>createBooking\<close> and of \<open>updateBookingDetails\<close> does not throw for this reason;
  \<open>createBooking\<close> and \<open>updateBookingDetails\<close> above are the table after a write
  that is accepted. The reads of a handler are taken to succeed.
\<close>

definition fitsInteger :: "int \<Rightarrow> bool" where
  "fitsInteger v \<longleftrightarrow> - 2147483648 \<le> v \<and> v \<le> 2147483647"

definition fitsNullable :: "int option \<Rightarrow> bool" where
  "fitsNullable x = (case x of None \<Rightarrow> True | Some v \<Rightarrow> fitsInteger v)"

definition fitsField :: "int field \<Rightarrow> bool" where
  "fitsField x = (case x of Absent \<Rightarrow> True | Null \<Rightarrow> True | Val v \<Rightarrow> fitsInteger v)"

definition insertAccepted :: "insert_booking \<Rightarrow> bool" where
  "insertAccepted data \<longleftrightarrow>
     fitsInteger (i_roomNumber data) \<and> fitsNullable (i_startHour data) \<and>
     fitsNullable (i_duration data) \<and> fitsInteger (i_price data) \<and>
     fitsNullable (i_paidAmount data) \<and> fitsField (i_extraTime data)"

definition updateAccepted :: "int \<Rightarrow> int option \<Rightarrow> int option \<Rightarrow> int \<Rightarrow> bool" where
  "updateAccepted room start dur pr \<longleftrightarrow>
     fitsInteger room \<and> fitsNullable start \<and> fitsNullable dur \<and> fitsInteger pr"

definition getCancellations :: "state \<Rightarrow> cancellation list" where
  "getCancellations s = sortBy cancellationOrder (cancellations s)"

text \<open>
  \<open>InsertCancellation\<close> is a cancellation without \<open>id\<close> and \<open>cancelledAt\<close>; the row to
  insert is given here with these two fields still to be set.
\<close>

definition createCancellation :: "state \<Rightarrow> cancellation \<Rightarrow> string \<Rightarrow> nat \<Rightarrow> state" where
  "createCancellation s c newId now =
     s\<lparr>cancellations := cancellations s @ [c\<lparr>c_id := newId, c_cancelledAt := Some now\<rparr>]\<rparr>"

definition updateCancellationClient ::
  "state \<Rightarrow> string \<Rightarrow> string \<Rightarrow> string \<Rightarrow> string \<Rightarrow> state" where
  "updateCancellationClient s i uid uname uphone =
     s\<lparr>cancellations :=
         map (\<lambda>c. if c_id c = i
                  then c\<lparr>c_userId := uid, c_userName := uname, c_userPhone := Some uphone\<rparr>
                  else c) (cancellations s)\<rparr>"

section \<open>Responses\<close>

text \<open>
  The handlers answer a refused request with an HTTP status and a message. Each such
  answer of the source is named here by the tag the specification gives it:
  \<^item> \<open>RoomOccupiedWholeDay\<close>: 409, a daily booking was asked for and the room already has
    bookings on that day;
  \<^item> \<open>RoomReservedForDay\<close>: 409, the room is booked for the whole day;
  \<^item> \<open>TimeSlotOverlap\<close>: 409, the chosen time overlaps an existing booking;
  \<^item> \<open>ClientBookedElsewhere\<close>: 409, the client is already booked in another room on that
    day;
  \<^item> \<open>ClientTimeConflict\<close>: 409, the client is already busy in another room at that time;
  \<^item> \<open>NotFound\<close>: 404, no such booking.
  The specification's tag \<open>InvalidSchedule\<close> is not among them: no answer of the source
  refuses a time or a duration. \<open>BadRequest\<close> is a 400 and \<open>ServerError\<close> the 500 of a
  handler's \<open>catch\<close>.
\<close>

datatype reject_reason =
  RoomOccupiedWholeDay
  | RoomReservedForDay
  | TimeSlotOverlap
  | ClientBookedElsewhere
  | ClientTimeConflict
  | NotFound

datatype response =
  Created booking
  | NoContent
  | Success
  | SuccessCount nat
  | Rejected reject_reason
  | BadRequest
  | ServerError

section \<open>Admission checks (inlined in POST /api/bookings and PUT /api/bookings/:id/edit)\<close>

text \<open>
  Both handlers carry the same two blocks of code, one after a read of the room's
  bookings on the date, one after a read of the date's bookings; they are written once
  here. \<open>ns\<close> and \<open>ne\<close> are the proposed start and end, both with \<open>|| 0\<close> applied.
\<close>

definition overlaps :: "int \<Rightarrow> int \<Rightarrow> booking \<Rightarrow> bool" where
  "overlaps ns ne b =
     (let bStart = orZero (startHour b); bEnd = bStart + orZero (duration b)
      in ns < bEnd \<and> ne > bStart)"

definition roomCheck ::
  "string \<Rightarrow> int option \<Rightarrow> int option \<Rightarrow> booking list \<Rightarrow> reject_reason option" where
  "roomCheck ty start dur existing =
     (if ty = ''daily'' then
        (if length existing > 0 then Some RoomOccupiedWholeDay else None)
      else
        (let hasDailyBooking = list_ex (\<lambda>b. bookingType b = ''daily'') existing in
         if hasDailyBooking then Some RoomReservedForDay
         else
           (let ns = orZero start; ne = ns + orZero dur;
                overlap = list_ex (overlaps ns ne) existing
            in if overlap then Some TimeSlotOverlap else None)))"

definition clientCheck ::
  "string \<Rightarrow> int \<Rightarrow> int option \<Rightarrow> int option \<Rightarrow> booking list \<Rightarrow> reject_reason option" where
  "clientCheck ty room start dur userBookings =
     (if length userBookings > 0 then
        (if ty = ''daily'' then
           (let userInOtherRoom = list_ex (\<lambda>b. roomNumber b \<noteq> room) userBookings
            in if userInOtherRoom then Some ClientBookedElsewhere else None)
         else
           (let ns = orZero start; ne = ns + orZero dur;
                clientOverlap =
                  list_ex (\<lambda>b. if roomNumber b = room then False
                               else if bookingType b = ''daily'' then True
                               else overlaps ns ne b) userBookings
            in if clientOverlap then Some ClientTimeConflict else None))
      else None)"

section \<open>POST /api/bookings\<close>

text \<open>
  The handler's input is the parsed request body (\<open>parsed.data\<close>); a body that the
  schema refuses is answered 400 before any of this runs. First the phone is normalised
  and, when it is the phone of a user, the booking is attributed to that user. After
  the two checks \<open>storage.createBooking\<close> is called; when it throws, the \<open>catch\<close>
  answers 500.
\<close>

definition resolveClient :: "state \<Rightarrow> insert_booking \<Rightarrow> insert_booking" where
  "resolveClient s body =
     (let data = (if truthy (i_userPhone body)
                  then body\<lparr>i_userPhone := Some (normalizePhone (i_userPhone body))\<rparr>
                  else body)
      in case i_userPhone data of
           None \<Rightarrow> data
         | Some p \<Rightarrow>
             if p = [] then data
             else (case getUserByPhone s p of
                     None \<Rightarrow> data
                   | Some existingUser \<Rightarrow>
                       data\<lparr>i_userId := u_id existingUser,
                            i_userName := u_name existingUser,
                            i_userPhone := Some (normalizePhone (u_phone existingUser))\<rparr>))"

definition createUserBookings :: "state \<Rightarrow> insert_booking \<Rightarrow> booking list" where
  "createUserBookings s data =
     filter (\<lambda>b. userId b = i_userId data \<or>
                 (truthy (i_userPhone data) \<and> userPhone b = i_userPhone data))
       (getBookingsByDate s (i_date data))"

definition post_bookings :: "state \<Rightarrow> insert_booking \<Rightarrow> string \<Rightarrow> nat \<Rightarrow> state \<times> response" where
  "post_bookings s body newId now =
     (let data = resolveClient s body;
          existingBookings = getBookingsByRoom s (i_roomNumber data) (i_date data)
      in case roomCheck (i_bookingType data) (i_startHour data) (i_duration data)
                existingBookings of
           Some r \<Rightarrow> (s, Rejected r)
         | None \<Rightarrow>
             (case clientCheck (i_bookingType data) (i_roomNumber data) (i_startHour data)
                     (i_duration data) (createUserBookings s data) of
                Some r \<Rightarrow> (s, Rejected r)
              | None \<Rightarrow>
                  if insertAccepted data
                  then (let (s', row) = createBooking s data newId now in (s', Created row))
                  else (s, ServerError)))"

section \<open>DELETE /api/bookings/:id\<close>

text \<open>
  The handler makes three storage calls in a \<open>try\<close> block; a call that throws ends the
  handler with 500 and the calls after it are not made. Which call throws, if any, is
  an argument.
\<close>

datatype storage_fault = NoFault | GetBookingFails | CreateCancellationFails | DeleteBookingFails

definition snapshot :: "booking \<Rightarrow> cancellation" where
  "snapshot b =
     \<lparr> c_id = [],
       c_userId = userId b,
       c_userName = userName b,
       c_userPhone = userPhone b,
       c_roomNumber = roomNumber b,
       c_date = date b,
       c_bookingType = bookingType b,
       c_price = price b,
       c_cancelledAt = None \<rparr>"

definition delete_booking ::
  "storage_fault \<Rightarrow> state \<Rightarrow> string \<Rightarrow> string \<Rightarrow> nat \<Rightarrow> state \<times> response" where
  "delete_booking fault s i newId now =
     (if fault = GetBookingFails then (s, ServerError)
      else
        (case getBooking s i of
           Some b \<Rightarrow>
             if fault = CreateCancellationFails then (s, ServerError)
             else
               (let s1 = createCancellation s (snapshot b) newId now
                in if fault = DeleteBookingFails then (s1, ServerError)
                   else (deleteBooking s1 i, NoContent))
         | None \<Rightarrow>
             if fault = DeleteBookingFails then (s, ServerError)
             else (deleteBooking s i, NoContent)))"

section \<open>PUT /api/bookings/:id/edit\<close>

text \<open>
  The handler reads five fields of the body. A body may carry others, such as a price;
  \<open>e_price\<close> stands for it. After the two checks \<open>storage.updateBookingDetails\<close> is
  called; when it throws, the \<open>catch\<close> answers 500.
\<close>

record edit_request =
  e_roomNumber :: "int option"
  e_date :: "string option"
  e_startHour :: "int field"
  e_duration :: "int field"
  e_bookingType :: "string option"
  e_price :: "int option"

definition newRoom :: "booking \<Rightarrow> edit_request \<Rightarrow> int" where
  "newRoom b req = orElseInt (e_roomNumber req) (roomNumber b)"

definition newDate :: "booking \<Rightarrow> edit_request \<Rightarrow> string" where
  "newDate b req = orElseStr (e_date req) (date b)"

definition newType :: "booking \<Rightarrow> edit_request \<Rightarrow> string" where
  "newType b req = orElseStr (e_bookingType req) (bookingType b)"

definition newStart :: "booking \<Rightarrow> edit_request \<Rightarrow> int option" where
  "newStart b req =
     (if newType b req = ''daily'' then Some 20 else ifDefined (e_startHour req) (startHour b))"

definition newDuration :: "booking \<Rightarrow> edit_request \<Rightarrow> int option" where
  "newDuration b req =
     (if newType b req = ''daily'' then Some 24 else ifDefined (e_duration req) (duration b))"

definition newPrice :: "booking \<Rightarrow> edit_request \<Rightarrow> int" where
  "newPrice b req =
     (if newType b req = ''daily'' then 3200 else orZero (newDuration b req) * 200)"

definition editUserBookings :: "state \<Rightarrow> booking \<Rightarrow> string \<Rightarrow> booking list" where
  "editUserBookings s b d =
     filter (\<lambda>x. bid x \<noteq> bid b \<and>
                 (userId x = userId b \<or> (truthy (userPhone b) \<and> userPhone x = userPhone b)))
       (getBookingsByDate s d)"

definition put_booking_edit :: "state \<Rightarrow> string \<Rightarrow> edit_request \<Rightarrow> state \<times> response" where
  "put_booking_edit s i req =
     (case getBooking s i of
        None \<Rightarrow> (s, Rejected NotFound)
      | Some b \<Rightarrow>
          (let existingBookings = getBookingsByRoom s (newRoom b req) (newDate b req);
               otherBookings = filter (\<lambda>x. bid x \<noteq> bid b) existingBookings
           in case roomCheck (newType b req) (newStart b req) (newDuration b req)
                     otherBookings of
                Some r \<Rightarrow> (s, Rejected r)
              | None \<Rightarrow>
                  (case clientCheck (newType b req) (newRoom b req) (newStart b req)
                          (newDuration b req) (editUserBookings s b (newDate b req)) of
                     Some r \<Rightarrow> (s, Rejected r)
                   | None \<Rightarrow>
                       if updateAccepted (newRoom b req) (newStart b req)
                            (newDuration b req) (newPrice b req)
                       then (updateBookingDetails s i (newRoom b req) (newDate b req)
                               (newStart b req) (newDuration b req) (newType b req)
                               (newPrice b req),
                             Success)
                       else (s, ServerError))))"

section \<open>POST /api/admin/merge-clients\<close>

text \<open>
  \<open>if (!sourceUserId || !targetUserId)\<close> answers 400 for an identifier that is missing
  or empty. The request is taken to carry a name; the phone may be missing. Both loops
  run over the lists read at the start and write row by row.
\<close>

record merge_request =
  m_sourceUserId :: "string option"
  m_targetUserId :: "string option"
  m_targetUserName :: string
  m_targetUserPhone :: "string option"

definition mergeBookings ::
  "string \<Rightarrow> string \<Rightarrow> string \<Rightarrow> string \<Rightarrow> booking list \<Rightarrow> state \<times> nat \<Rightarrow> state \<times> nat" where
  "mergeBookings src tgt name phone allBookings acc =
     fold (\<lambda>b (st, updatedCount).
             if userId b = src
             then (updateBookingClient st (bid b) tgt name phone, updatedCount + 1)
             else (st, updatedCount)) allBookings acc"

definition mergeCancellations ::
  "string \<Rightarrow> string \<Rightarrow> string \<Rightarrow> string \<Rightarrow> cancellation list \<Rightarrow> state \<times> nat \<Rightarrow> state \<times> nat" where
  "mergeCancellations src tgt name phone allCancellations acc =
     fold (\<lambda>c (st, updatedCount).
             if c_userId c = src
             then (updateCancellationClient st (c_id c) tgt name phone, updatedCount + 1)
             else (st, updatedCount)) allCancellations acc"

definition post_merge_clients :: "state \<Rightarrow> merge_request \<Rightarrow> state \<times> response" where
  "post_merge_clients s req =
     (case m_sourceUserId req of
        None \<Rightarrow> (s, BadRequest)
      | Some src \<Rightarrow>
          (case m_targetUserId req of
             None \<Rightarrow> (s, BadRequest)
           | Some tgt \<Rightarrow>
               if src = [] \<or> tgt = [] then (s, BadRequest)
               else
                 (let allBookings = getBookings s;
                      allCancellations = getCancellations s;
                      phone = normalizePhone (m_targetUserPhone req);
                      acc1 = mergeBookings src tgt (m_targetUserName req) phone
                               allBookings (s, 0);
                      acc2 = mergeCancellations src tgt (m_targetUserName req) phone
                               allCancellations acc1
                  in (fst acc2, SuccessCount (snd acc2)))))"

section \<open>POST /api/admin/cleanup-duplicates\<close>

text \<open>
  \<open>trim\<close> and \<open>toLowerCase\<close> are modelled on ASCII: the white space removed is the
  ASCII white space, and the letters lowered are \<open>A\<close> to \<open>Z\<close>.
\<close>

definition isSpace :: "char \<Rightarrow> bool" where
  "isSpace c \<longleftrightarrow> c \<in> set [CHR 0x09, CHR 0x0A, CHR 0x0B, CHR 0x0C, CHR 0x0D, CHR '' '']"

definition trim :: "string \<Rightarrow> string" where
  "trim str = rev (dropWhile isSpace (rev (dropWhile isSpace str)))"

definition toLowerCase :: "string \<Rightarrow> string" where
  "toLowerCase str =
     map (\<lambda>c. case map_of (zip ''ABCDEFGHIJKLMNOPQRSTUVWXYZ'' ''abcdefghijklmnopqrstuvwxyz'') c of
                None \<Rightarrow> c
              | Some l \<Rightarrow> l) str"

text \<open>
  \<open>groups\<close> is an object used as a dictionary from a name to the rows pushed under it;
  it is an association list in the order in which the names were first seen, which is
  the order in which \<open>Object.entries\<close> lists names that are not array indices. A
  name that every object inherits as a property (such as \<open>constructor\<close>) is not
  modelled.
\<close>

fun pushGroup :: "string \<Rightarrow> 'a \<Rightarrow> (string \<times> 'a list) list \<Rightarrow> (string \<times> 'a list) list" where
  "pushGroup k v [] = [(k, [v])]"
| "pushGroup k v ((k', vs) # g) =
     (if k' = k then (k', vs @ [v]) # g else (k', vs) # pushGroup k v g)"

definition groupBookings :: "booking list \<Rightarrow> (string \<times> booking list) list" where
  "groupBookings allBookings =
     fold (\<lambda>b groups.
             if \<not> startsWith ''walk_in_'' (userId b) then groups
             else
               (let trimmedName = toLowerCase (trim (userName b))
                in if trimmedName = [] then groups else pushGroup trimmedName b groups))
       allBookings []"

definition groupCancellations :: "cancellation list \<Rightarrow> (string \<times> cancellation list) list" where
  "groupCancellations allCancellations =
     fold (\<lambda>c cancelGroups.
             if \<not> startsWith ''walk_in_'' (c_userId c) then cancelGroups
             else
               (let trimmedName = toLowerCase (trim (c_userName c))
                in if trimmedName = [] then cancelGroups
                   else pushGroup trimmedName c cancelGroups))
       allCancellations []"

text \<open>
  \<open>withPhone || bookings[0]\<close>: the first row of the group with a phone that is not
  blank, else the group's first row. A group is never empty; \<open>None\<close> stands for the
  \<open>undefined\<close> of an empty one.
\<close>

definition canonicalOf :: "booking list \<Rightarrow> booking option" where
  "canonicalOf members =
     (case find (\<lambda>b. case userPhone b of None \<Rightarrow> False
                                         | Some p \<Rightarrow> p \<noteq> [] \<and> trim p \<noteq> []) members of
        Some withPhone \<Rightarrow> Some withPhone
      | None \<Rightarrow> (case members of [] \<Rightarrow> None | first # _ \<Rightarrow> Some first))"

definition dedupGroup :: "booking list \<Rightarrow> state \<times> nat \<Rightarrow> state \<times> nat" where
  "dedupGroup members acc =
     (if length members \<le> 1 then acc
      else
        (case canonicalOf members of
           None \<Rightarrow> acc
         | Some canonical \<Rightarrow>
             (let canonicalId = userId canonical;
                  canonicalName = trim (userName canonical);
                  canonicalPhone = normalizePhone (userPhone canonical)
              in fold (\<lambda>b (st, updatedCount).
                         if userId b = canonicalId \<and> userName b = canonicalName \<and>
                            normalizePhone (userPhone b) = canonicalPhone
                         then (st, updatedCount)
                         else (updateBookingClient st (bid b) canonicalId canonicalName
                                 canonicalPhone, updatedCount + 1))
                   members acc)))"

definition normalizeStoredPhones :: "booking list \<Rightarrow> state \<times> nat \<Rightarrow> state \<times> nat" where
  "normalizeStoredPhones allBookings acc =
     fold (\<lambda>b (st, updatedCount).
             case userPhone b of
               None \<Rightarrow> (st, updatedCount)
             | Some p \<Rightarrow>
                 if p = [] then (st, updatedCount)
                 else
                   (let norm = normalizePhone (Some p)
                    in if norm \<noteq> p
                       then (updateBookingClient st (bid b) (userId b) (userName b) norm,
                             updatedCount + 1)
                       else (st, updatedCount)))
       allBookings acc"

definition dedupCancelGroup ::
  "(string \<times> booking list) list \<Rightarrow> string \<Rightarrow> cancellation list \<Rightarrow> state \<times> nat \<Rightarrow> state \<times> nat" where
  "dedupCancelGroup groups name cancels acc =
     (case map_of groups name of
        None \<Rightarrow> acc
      | Some members \<Rightarrow>
          (case canonicalOf members of
             None \<Rightarrow> acc
           | Some canonical \<Rightarrow>
               fold (\<lambda>c (st, updatedCount).
                       if truthy (c_userPhone c) then
                         (let norm = normalizePhone (c_userPhone c)
                          in if Some norm \<noteq> c_userPhone c \<or> c_userId c \<noteq> userId canonical
                             then (updateCancellationClient st (c_id c) (userId canonical)
                                     (trim (userName canonical))
                                     (normalizePhone (userPhone canonical)),
                                   updatedCount + 1)
                             else (st, updatedCount))
                       else (updateCancellationClient st (c_id c) (userId canonical)
                               (trim (userName canonical))
                               (normalizePhone (userPhone canonical)),
                             updatedCount + 1))
                 cancels acc))"

definition post_cleanup_duplicates :: "state \<Rightarrow> state \<times> response" where
  "post_cleanup_duplicates s =
     (let allBookings = getBookings s;
          groups = groupBookings allBookings;
          acc1 = fold (\<lambda>(name, members). dedupGroup members) groups (s, 0);
          acc2 = normalizeStoredPhones allBookings acc1;
          allCancellations = getCancellations (fst acc2);
          cancelGroups = groupCancellations allCancellations;
          acc3 = fold (\<lambda>(name, cancels). dedupCancelGroup groups name cancels)
                   cancelGroups acc2
      in (fst acc3, SuccessCount (snd acc3)))"

section \<open>Example data\<close>

definition exBooking ::
  "string \<Rightarrow> int \<Rightarrow> string \<Rightarrow> string \<Rightarrow> string option \<Rightarrow> string \<Rightarrow> int \<Rightarrow> int \<Rightarrow> string \<Rightarrow> booking" where
  "exBooking i room uid name phone d start dur ty =
     \<lparr> bid = i, roomNumber = room, userId = uid, userName = name, userPhone = phone,
       date = d, startHour = Some start, duration = Some dur, bookingType = ty,
       price = (if ty = ''daily'' then 3200 else dur * 200), paid = Some False,
       paymentMethod = None, paidAmount = None, isDebtor = Some False, extraTime = Some 0,
       createdAt = Some 0 \<rparr>"

definition exInsert ::
  "int \<Rightarrow> string \<Rightarrow> string \<Rightarrow> string option \<Rightarrow> string \<Rightarrow> int \<Rightarrow> int \<Rightarrow> string \<Rightarrow> insert_booking" where
  "exInsert room uid name phone d start dur ty =
     \<lparr> i_roomNumber = room, i_userId = uid, i_userName = name, i_userPhone = phone,
       i_date = d, i_startHour = Some start, i_duration = Some dur, i_bookingType = ty,
       i_price = (if ty = ''daily'' then 3200 else dur * 200), i_paid = Absent,
       i_paymentMethod = None, i_paidAmount = None, i_isDebtor = Absent,
       i_extraTime = Absent \<rparr>"

definition exCancellation ::
  "string \<Rightarrow> string \<Rightarrow> string \<Rightarrow> string option \<Rightarrow> nat \<Rightarrow> cancellation" where
  "exCancellation i uid name phone t =
     \<lparr> c_id = i, c_userId = uid, c_userName = name, c_userPhone = phone, c_roomNumber = 1,
       c_date = ''2026-03-01'', c_bookingType = ''hourly'', c_price = 400,
       c_cancelledAt = Some t \<rparr>"

definition exEdit ::
  "int option \<Rightarrow> int field \<Rightarrow> int field \<Rightarrow> string option \<Rightarrow> edit_request" where
  "exEdit room start dur ty =
     \<lparr> e_roomNumber = room, e_date = None, e_startHour = start, e_duration = dur,
       e_bookingType = ty, e_price = Some 1 \<rparr>"

definition exState :: "booking list \<Rightarrow> cancellation list \<Rightarrow> state" where
  "exState bs cs = \<lparr> users = [], bookings = bs, cancellations = cs \<rparr>"

text \<open>
  One date with an hourly booking 10:00 to 12:00 in room 1, a daily booking in room 2
  and an hourly booking 15:00 to 16:00 in room 3, of three clients.
\<close>

definition exDay :: state where
  "exDay = exState
     [exBooking ''b1'' 1 ''u1'' ''Ann'' (Some ''9123456789'') ''2026-03-01'' 20 4 ''hourly'',
      exBooking ''b2'' 2 ''u2'' ''Bob'' None ''2026-03-01'' 20 24 ''daily'',
      exBooking ''b3'' 3 ''u3'' ''Eve'' (Some []) ''2026-03-01'' 30 2 ''hourly''] []"

lemmas model_defs =
  exBooking_def exInsert_def exCancellation_def exEdit_def exState_def exDay_def
  post_bookings_def resolveClient_def truthy_def normalizePhone_def getUserByPhone_def
  getBookingsByRoom_def getBookingsByDate_def getBooking_def roomCheck_def clientCheck_def
  createUserBookings_def editUserBookings_def createBooking_def insertRow_def
  withDefault_def overlaps_def orZero_def orElseInt_def orElseStr_def ifDefined_def Let_def
  isDigit_def startsWith_def put_booking_edit_def newRoom_def newDate_def newType_def
  newStart_def newDuration_def newPrice_def updateBookingDetails_def delete_booking_def
  snapshot_def createCancellation_def deleteBooking_def fitsInteger_def fitsNullable_def
  fitsField_def insertAccepted_def updateAccepted_def

text \<open>
  Scenario C of the specification: client \<open>x\<close> holds room 1 from 10:00 to 12:00. The
  second state adds a booking of the same client in room 2 from 13:00 to 14:00.
\<close>

definition exScenarioC :: state where
  "exScenarioC = exState
     [exBooking ''b1'' 1 ''x'' ''Xena'' None ''2026-03-01'' 20 4 ''hourly''] []"

definition exScenarioC2 :: state where
  "exScenarioC2 = exState
     [exBooking ''b1'' 1 ''x'' ''Xena'' None ''2026-03-01'' 20 4 ''hourly'',
      exBooking ''b5'' 2 ''x'' ''Xena'' None ''2026-03-01'' 26 2 ''hourly''] []"

text \<open>
  Two walk-in bookings under one name, both with a phone, the second phone stored with
  its trunk prefix; and a walk-in booking without a phone next to a cancellation of the
  same client.
\<close>

definition exDuplicates :: state where
  "exDuplicates = exState
     [exBooking ''b1'' 1 ''walk_in_1'' ''Ann'' (Some ''9000000000'') ''2026-03-01'' 20 2 ''hourly'',
      exBooking ''b2'' 2 ''walk_in_2'' ''Ann'' (Some ''89123456789'') ''2026-03-01'' 24 2 ''hourly'']
     []"

definition exCancelled :: state where
  "exCancelled = exState
     [exBooking ''b1'' 1 ''walk_in_1'' ''Ann'' None ''2026-03-01'' 20 2 ''hourly'']
     [exCancellation ''c1'' ''walk_in_1'' ''Ann'' None 7]"

text \<open>
  Bookings and cancellations of two clients, for a merge; the two bookings are at the
  same time in two rooms.
\<close>

definition exClients :: state where
  "exClients = exState
     [exBooking ''b1'' 1 ''u1'' ''Ann'' None ''2026-03-01'' 20 2 ''hourly'',
      exBooking ''b2'' 2 ''u2'' ''Bob'' None ''2026-03-01'' 20 2 ''hourly'']
     [exCancellation ''c1'' ''u1'' ''Ann'' None 7,
      exCancellation ''c2'' ''u2'' ''Bob'' None 8]"

definition exMerge :: "string \<Rightarrow> string \<Rightarrow> merge_request" where
  "exMerge src tgt =
     \<lparr> m_sourceUserId = Some src, m_targetUserId = Some tgt, m_targetUserName = ''Bob'',
       m_targetUserPhone = Some ''+7 (912) 345-67-89'' \<rparr>"

text \<open>Two bookings with different \<open>userId\<close>s and the same stored phone.\<close>

definition exPhones :: state where
  "exPhones = exState
     [exBooking ''b1'' 1 ''u1'' ''Ann'' (Some ''9123456789'') ''2026-03-01'' 20 4 ''hourly'',
      exBooking ''b6'' 2 ''u9'' ''Anna'' (Some ''9123456789'') ''2026-03-01'' 26 2 ''hourly''] []"

lemmas example_defs =
  exScenarioC_def exScenarioC2_def exDuplicates_def exCancelled_def exClients_def exMerge_def
  exPhones_def

lemmas dedup_defs =
  post_cleanup_duplicates_def getBookings_def getCancellations_def sortBy_def
  bookingOrder_def cancellationOrder_def groupBookings_def groupCancellations_def
  canonicalOf_def dedupGroup_def normalizeStoredPhones_def dedupCancelGroup_def
  updateBookingClient_def updateCancellationClient_def trim_def toLowerCase_def isSpace_def

lemmas merge_defs =
  post_merge_clients_def mergeBookings_def mergeCancellations_def getBookings_def
  getCancellations_def sortBy_def bookingOrder_def cancellationOrder_def
  updateBookingClient_def updateCancellationClient_def

section \<open>Properties of the phone normalizer\<close>

lemma normalizePhone_digits: "filter isDigit (normalizePhone x) = normalizePhone x"
proof (cases x)
  case None
  then show ?thesis by (simp add: normalizePhone_def)
next
  case (Some p)
  have "filter isDigit (drop 1 (filter isDigit p)) = drop 1 (filter isDigit p)"
    by (rule filter_True) (auto dest: in_set_dropD)
  with Some show ?thesis by (simp add: normalizePhone_def Let_def)
qed

lemma normalizePhone_stable:
  "\<not> (length (normalizePhone x) = 11 \<and>
      (startsWith ''7'' (normalizePhone x) \<or> startsWith ''8'' (normalizePhone x)))"
  by (cases x) (auto simp: normalizePhone_def Let_def)

lemma normalizePhone_Some_eq:
  "normalizePhone (Some p) =
     (let digits = filter isDigit p in
      if startsWith ''7'' digits \<and> length digits = 11 then drop 1 digits
      else if startsWith ''8'' digits \<and> length digits = 11 then drop 1 digits
      else digits)"
  by (simp add: normalizePhone_def Let_def)

lemma normalizePhone_idem: "normalizePhone (Some (normalizePhone x)) = normalizePhone x"
proof -
  let ?n = "normalizePhone x"
  have "\<not> (startsWith ''7'' ?n \<and> length ?n = 11)" "\<not> (startsWith ''8'' ?n \<and> length ?n = 11)"
    using normalizePhone_stable [of x] by blast+
  then show ?thesis
    by (simp only: normalizePhone_Some_eq Let_def normalizePhone_digits if_False)
qed

text \<open>
  Claim C7. The normalizer is idempotent: normalising a normalised phone changes nothing.
  It maps \<open>+7 (912) 345-67-89\<close>, \<open>89123456789\<close> and \<open>79123456789\<close> to
  \<open>9123456789\<close>. For an absent input and for the empty string it returns the empty
  string (a string in every case: the result type has no \<open>null\<close>).
\<close>

theorem normalizePhone_idempotent_and_examples:
  "normalizePhone (Some (normalizePhone x)) = normalizePhone x
   \<and> normalizePhone (Some ''+7 (912) 345-67-89'') = ''9123456789''
   \<and> normalizePhone (Some ''89123456789'') = ''9123456789''
   \<and> normalizePhone (Some ''79123456789'') = ''9123456789''
   \<and> normalizePhone None = ''''
   \<and> normalizePhone (Some '''') = ''''"
proof -
  have "normalizePhone (Some ''+7 (912) 345-67-89'') = ''9123456789''"
    by (simp add: normalizePhone_def isDigit_def startsWith_def)
  moreover have "normalizePhone (Some ''89123456789'') = ''9123456789''"
    by (simp add: normalizePhone_def isDigit_def startsWith_def)
  moreover have "normalizePhone (Some ''79123456789'') = ''9123456789''"
    by (simp add: normalizePhone_def isDigit_def startsWith_def)
  moreover have "normalizePhone None = ''''" "normalizePhone (Some '''') = ''''"
    by (simp_all add: normalizePhone_def)
  ultimately show ?thesis
    using normalizePhone_idem [of x] by simp
qed

section \<open>Outcomes of the admission checks\<close>

lemma roomCheck_occupied:
  "ty = ''daily'' \<and> ex \<noteq> [] \<Longrightarrow> roomCheck ty st du ex = Some RoomOccupiedWholeDay"
  by (simp add: roomCheck_def)

lemma roomCheck_reserved:
  "ty \<noteq> ''daily'' \<and> (\<exists>x\<in>set ex. bookingType x = ''daily'') \<Longrightarrow>
   roomCheck ty st du ex = Some RoomReservedForDay"
  by (simp add: roomCheck_def list_ex_iff)

lemma roomCheck_overlap:
  "ty \<noteq> ''daily'' \<and> \<not> (\<exists>x\<in>set ex. bookingType x = ''daily'') \<and>
   (\<exists>x\<in>set ex. bookingType x \<noteq> ''daily'' \<and> orZero st < orZero (startHour x) + orZero (duration x)
       \<and> orZero st + orZero du > orZero (startHour x)) \<Longrightarrow>
   roomCheck ty st du ex = Some TimeSlotOverlap"
  by (auto simp: roomCheck_def list_ex_iff overlaps_def Let_def)

lemma roomCheck_pass:
  "\<not> (ty = ''daily'' \<and> ex \<noteq> []) \<and>
   \<not> (ty \<noteq> ''daily'' \<and> (\<exists>x\<in>set ex. bookingType x = ''daily'')) \<and>
   \<not> (ty \<noteq> ''daily'' \<and> (\<exists>x\<in>set ex. bookingType x \<noteq> ''daily'' \<and>
          orZero st < orZero (startHour x) + orZero (duration x)
          \<and> orZero st + orZero du > orZero (startHour x))) \<Longrightarrow>
   roomCheck ty st du ex = None"
  by (auto simp: roomCheck_def list_ex_iff overlaps_def Let_def)

lemma roomCheck_range:
  "roomCheck ty st du ex = Some r \<Longrightarrow>
   r = RoomOccupiedWholeDay \<or> r = RoomReservedForDay \<or> r = TimeSlotOverlap"
  by (auto simp: roomCheck_def Let_def split: if_splits)

lemma clientCheck_range:
  "clientCheck ty room st du ub = Some r \<Longrightarrow> r = ClientBookedElsewhere \<or> r = ClientTimeConflict"
  by (auto simp: clientCheck_def Let_def split: if_splits)

lemma post_bookings_room_reject:
  "roomCheck (i_bookingType (resolveClient s body)) (i_startHour (resolveClient s body))
     (i_duration (resolveClient s body))
     (getBookingsByRoom s (i_roomNumber (resolveClient s body)) (i_date (resolveClient s body)))
   = Some r \<Longrightarrow>
   post_bookings s body newId now = (s, Rejected r)"
  by (simp add: post_bookings_def Let_def)

lemma post_bookings_room_pass:
  "roomCheck (i_bookingType (resolveClient s body)) (i_startHour (resolveClient s body))
     (i_duration (resolveClient s body))
     (getBookingsByRoom s (i_roomNumber (resolveClient s body)) (i_date (resolveClient s body)))
   = None \<Longrightarrow>
   post_bookings s body newId now =
     (case clientCheck (i_bookingType (resolveClient s body)) (i_roomNumber (resolveClient s body))
             (i_startHour (resolveClient s body)) (i_duration (resolveClient s body))
             (createUserBookings s (resolveClient s body)) of
        Some r \<Rightarrow> (s, Rejected r)
      | None \<Rightarrow>
          if insertAccepted (resolveClient s body)
          then (s\<lparr>bookings := bookings s @ [insertRow (resolveClient s body) newId now]\<rparr>,
                Created (insertRow (resolveClient s body) newId now))
          else (s, ServerError))"
  by (simp add: post_bookings_def Let_def createBooking_def split: option.splits)

lemma post_bookings_reject_no_write:
  "snd (post_bookings s body newId now) = Rejected r \<Longrightarrow> fst (post_bookings s body newId now) = s"
  by (auto simp: post_bookings_def Let_def createBooking_def split: option.splits if_splits)

lemma post_bookings_pass_not_room_reason:
  assumes "roomCheck (i_bookingType (resolveClient s body)) (i_startHour (resolveClient s body))
     (i_duration (resolveClient s body))
     (getBookingsByRoom s (i_roomNumber (resolveClient s body)) (i_date (resolveClient s body)))
   = None"
  shows "snd (post_bookings s body newId now) \<noteq> Rejected RoomOccupiedWholeDay
    \<and> snd (post_bookings s body newId now) \<noteq> Rejected RoomReservedForDay
    \<and> snd (post_bookings s body newId now) \<noteq> Rejected TimeSlotOverlap"
  using clientCheck_range [of "i_bookingType (resolveClient s body)" "i_roomNumber (resolveClient s body)"
             "i_startHour (resolveClient s body)" "i_duration (resolveClient s body)"
             "createUserBookings s (resolveClient s body)"]
  by (auto simp: post_bookings_room_pass [OF assms] split: option.splits if_splits)

lemma put_booking_edit_room_reject:
  "getBooking s i = Some b \<Longrightarrow>
   roomCheck (newType b req) (newStart b req) (newDuration b req)
     (filter (\<lambda>x. bid x \<noteq> bid b) (getBookingsByRoom s (newRoom b req) (newDate b req))) = Some r \<Longrightarrow>
   put_booking_edit s i req = (s, Rejected r)"
  by (simp add: put_booking_edit_def Let_def)

lemma put_booking_edit_room_pass:
  "getBooking s i = Some b \<Longrightarrow>
   roomCheck (newType b req) (newStart b req) (newDuration b req)
     (filter (\<lambda>x. bid x \<noteq> bid b) (getBookingsByRoom s (newRoom b req) (newDate b req))) = None \<Longrightarrow>
   put_booking_edit s i req =
     (case clientCheck (newType b req) (newRoom b req) (newStart b req) (newDuration b req)
             (editUserBookings s b (newDate b req)) of
        Some r \<Rightarrow> (s, Rejected r)
      | None \<Rightarrow>
          if updateAccepted (newRoom b req) (newStart b req) (newDuration b req)
               (newPrice b req)
          then (updateBookingDetails s i (newRoom b req) (newDate b req) (newStart b req)
                  (newDuration b req) (newType b req) (newPrice b req), Success)
          else (s, ServerError))"
  by (simp add: put_booking_edit_def Let_def split: option.splits)

lemma put_booking_edit_reject_no_write:
  "snd (put_booking_edit s i req) = Rejected r \<Longrightarrow> fst (put_booking_edit s i req) = s"
  by (auto simp: put_booking_edit_def Let_def split: option.splits if_splits)

lemma put_booking_edit_pass_not_room_reason:
  assumes "getBooking s i = Some b"
    and "roomCheck (newType b req) (newStart b req) (newDuration b req)
     (filter (\<lambda>x. bid x \<noteq> bid b) (getBookingsByRoom s (newRoom b req) (newDate b req))) = None"
  shows "snd (put_booking_edit s i req) \<noteq> Rejected RoomOccupiedWholeDay
    \<and> snd (put_booking_edit s i req) \<noteq> Rejected RoomReservedForDay
    \<and> snd (put_booking_edit s i req) \<noteq> Rejected TimeSlotOverlap"
  using clientCheck_range [of "newType b req" "newRoom b req" "newStart b req" "newDuration b req"
             "editUserBookings s b (newDate b req)"]
  by (auto simp: put_booking_edit_room_pass [OF assms] split: option.splits if_splits)

text \<open>
  Claim C1. A proposed booking is checked against the bookings of its room and date
  (on edit, without the booking being edited). A daily proposal is refused with
  \<open>RoomOccupiedWholeDay\<close> when that set is not empty. An hourly proposal (any type
  other than \<open>daily\<close>) is refused with \<open>RoomReservedForDay\<close> when the set has a daily
  booking, and otherwise with \<open>TimeSlotOverlap\<close> when some booking of the set satisfies
  \<open>start < other.end \<and> end > other.start\<close>. In every other case the answer is none of
  these three. A refusal leaves the state as it was. The first conjunct is the create
  handler, the second the edit handler.
\<close>

theorem room_date_admission:
  "(let data = resolveClient s body;
        ex = getBookingsByRoom s (i_roomNumber data) (i_date data);
        ns = orZero (i_startHour data);
        ne = ns + orZero (i_duration data);
        daily = (i_bookingType data = ''daily'');
        someDaily = (\<exists>x\<in>set ex. bookingType x = ''daily'');
        someOverlap = (\<exists>x\<in>set ex. bookingType x \<noteq> ''daily'' \<and>
                         ns < orZero (startHour x) + orZero (duration x) \<and>
                         ne > orZero (startHour x));
        result = post_bookings s body newId now
    in (daily \<and> ex \<noteq> [] \<longrightarrow> result = (s, Rejected RoomOccupiedWholeDay))
     \<and> (\<not> daily \<and> someDaily \<longrightarrow> result = (s, Rejected RoomReservedForDay))
     \<and> (\<not> daily \<and> \<not> someDaily \<and> someOverlap \<longrightarrow> result = (s, Rejected TimeSlotOverlap))
     \<and> (\<not> (daily \<and> ex \<noteq> []) \<and> \<not> (\<not> daily \<and> someDaily) \<and> \<not> (\<not> daily \<and> someOverlap) \<longrightarrow>
          snd result \<noteq> Rejected RoomOccupiedWholeDay \<and>
          snd result \<noteq> Rejected RoomReservedForDay \<and>
          snd result \<noteq> Rejected TimeSlotOverlap)
     \<and> (\<forall>r. snd result = Rejected r \<longrightarrow> fst result = s))
   \<and> (\<forall>b. getBooking s i = Some b \<longrightarrow>
       (let ex = filter (\<lambda>x. bid x \<noteq> bid b)
                   (getBookingsByRoom s (newRoom b req) (newDate b req));
            ns = orZero (newStart b req);
            ne = ns + orZero (newDuration b req);
            daily = (newType b req = ''daily'');
            someDaily = (\<exists>x\<in>set ex. bookingType x = ''daily'');
            someOverlap = (\<exists>x\<in>set ex. bookingType x \<noteq> ''daily'' \<and>
                             ns < orZero (startHour x) + orZero (duration x) \<and>
                             ne > orZero (startHour x));
            result = put_booking_edit s i req
        in (daily \<and> ex \<noteq> [] \<longrightarrow> result = (s, Rejected RoomOccupiedWholeDay))
         \<and> (\<not> daily \<and> someDaily \<longrightarrow> result = (s, Rejected RoomReservedForDay))
         \<and> (\<not> daily \<and> \<not> someDaily \<and> someOverlap \<longrightarrow> result = (s, Rejected TimeSlotOverlap))
         \<and> (\<not> (daily \<and> ex \<noteq> []) \<and> \<not> (\<not> daily \<and> someDaily) \<and> \<not> (\<not> daily \<and> someOverlap) \<longrightarrow>
              snd result \<noteq> Rejected RoomOccupiedWholeDay \<and>
              snd result \<noteq> Rejected RoomReservedForDay \<and>
              snd result \<noteq> Rejected TimeSlotOverlap)
         \<and> (\<forall>r. snd result = Rejected r \<longrightarrow> fst result = s)))"
proof -
  show ?thesis
    unfolding Let_def
  proof (intro conjI allI impI, goal_cases)
    case 1
    from post_bookings_room_reject [OF roomCheck_occupied [OF 1]] show ?case .
  next
    case 2
    from post_bookings_room_reject [OF roomCheck_reserved [OF 2]] show ?case .
  next
    case 3
    from post_bookings_room_reject [OF roomCheck_overlap [OF 3]] show ?case .
  next
    case 4
    from post_bookings_pass_not_room_reason [OF roomCheck_pass [OF 4]] show ?case by simp
  next
    case 5
    from post_bookings_pass_not_room_reason [OF roomCheck_pass [OF 5]] show ?case by simp
  next
    case 6
    from post_bookings_pass_not_room_reason [OF roomCheck_pass [OF 6]] show ?case by simp
  next
    case (7 r)
    then show ?case by (rule post_bookings_reject_no_write)
  next
    case (8 b)
    from put_booking_edit_room_reject [OF 8(1) roomCheck_occupied [OF 8(2)]] show ?case .
  next
    case (9 b)
    from put_booking_edit_room_reject [OF 9(1) roomCheck_reserved [OF 9(2)]] show ?case .
  next
    case (10 b)
    from put_booking_edit_room_reject [OF 10(1) roomCheck_overlap [OF 10(2)]] show ?case .
  next
    case (11 b)
    from put_booking_edit_pass_not_room_reason [OF 11(1) roomCheck_pass [OF 11(2)]] show ?case by simp
  next
    case (12 b)
    from put_booking_edit_pass_not_room_reason [OF 12(1) roomCheck_pass [OF 12(2)]] show ?case by simp
  next
    case (13 b)
    from put_booking_edit_pass_not_room_reason [OF 13(1) roomCheck_pass [OF 13(2)]] show ?case by simp
  next
    case (14 b r)
    from put_booking_edit_reject_no_write [OF 14(2)] show ?case .
  qed
qed


theorem room_date_admission_witness:
  "post_bookings exDay (exInsert 1 ''u4'' ''Dan'' None ''2026-03-01'' 20 24 ''daily'') ''b4'' 9
     = (exDay, Rejected RoomOccupiedWholeDay)
   \<and> post_bookings exDay (exInsert 2 ''u4'' ''Dan'' None ''2026-03-01'' 20 2 ''hourly'') ''b4'' 9
     = (exDay, Rejected RoomReservedForDay)
   \<and> post_bookings exDay (exInsert 1 ''u4'' ''Dan'' None ''2026-03-01'' 22 2 ''hourly'') ''b4'' 9
     = (exDay, Rejected TimeSlotOverlap)
   \<and> snd (post_bookings exDay (exInsert 1 ''u4'' ''Dan'' None ''2026-03-01'' 24 2 ''hourly'') ''b4'' 9)
     \<noteq> Rejected TimeSlotOverlap
   \<and> put_booking_edit exDay ''b3'' (exEdit (Some 1) Absent Absent (Some ''daily''))
     = (exDay, Rejected RoomOccupiedWholeDay)
   \<and> put_booking_edit exDay ''b3'' (exEdit (Some 2) Absent Absent None)
     = (exDay, Rejected RoomReservedForDay)
   \<and> put_booking_edit exDay ''b3'' (exEdit (Some 1) (Val 22) Absent None)
     = (exDay, Rejected TimeSlotOverlap)
   \<and> snd (put_booking_edit exDay ''b3'' (exEdit None (Val 32) Absent None))
     \<noteq> Rejected TimeSlotOverlap"
proof -
  let ?p1 = "exInsert 1 ''u4'' ''Dan'' None ''2026-03-01'' 20 24 ''daily''"
  let ?p2 = "exInsert 2 ''u4'' ''Dan'' None ''2026-03-01'' 20 2 ''hourly''"
  let ?p3 = "exInsert 1 ''u4'' ''Dan'' None ''2026-03-01'' 22 2 ''hourly''"
  let ?p4 = "exInsert 1 ''u4'' ''Dan'' None ''2026-03-01'' 24 2 ''hourly''"
  let ?e1 = "exEdit (Some 1) Absent Absent (Some ''daily'')"
  let ?e2 = "exEdit (Some 2) Absent Absent None"
  let ?e3 = "exEdit (Some 1) (Val 22) Absent None"
  let ?e4 = "exEdit None (Val 32) Absent None"
  let ?b3 = "exBooking ''b3'' 3 ''u3'' ''Eve'' (Some []) ''2026-03-01'' 30 2 ''hourly''"
  let ?ex = "\<lambda>p. getBookingsByRoom exDay (i_roomNumber (resolveClient exDay p))
                  (i_date (resolveClient exDay p))"
  let ?others = "\<lambda>e. filter (\<lambda>x. bid x \<noteq> bid ?b3)
                  (getBookingsByRoom exDay (newRoom ?b3 e) (newDate ?b3 e))"
  have b3: "getBooking exDay ''b3'' = Some ?b3"
    by (simp add: model_defs)
  have h1: "i_bookingType (resolveClient exDay ?p1) = ''daily'' \<and> ?ex ?p1 \<noteq> []"
    by (simp add: model_defs)
  have h2: "i_bookingType (resolveClient exDay ?p2) \<noteq> ''daily'' \<and>
            (\<exists>x\<in>set (?ex ?p2). bookingType x = ''daily'')"
    by (simp add: model_defs)
  have h3: "i_bookingType (resolveClient exDay ?p3) \<noteq> ''daily'' \<and>
            \<not> (\<exists>x\<in>set (?ex ?p3). bookingType x = ''daily'') \<and>
            (\<exists>x\<in>set (?ex ?p3). bookingType x \<noteq> ''daily'' \<and>
               orZero (i_startHour (resolveClient exDay ?p3))
                 < orZero (startHour x) + orZero (duration x) \<and>
               orZero (i_startHour (resolveClient exDay ?p3))
                 + orZero (i_duration (resolveClient exDay ?p3)) > orZero (startHour x))"
    by (simp add: model_defs)
  have h4: "\<not> (i_bookingType (resolveClient exDay ?p4) = ''daily'' \<and> ?ex ?p4 \<noteq> []) \<and>
            \<not> (i_bookingType (resolveClient exDay ?p4) \<noteq> ''daily'' \<and>
               (\<exists>x\<in>set (?ex ?p4). bookingType x = ''daily'')) \<and>
            \<not> (i_bookingType (resolveClient exDay ?p4) \<noteq> ''daily'' \<and>
               (\<exists>x\<in>set (?ex ?p4). bookingType x \<noteq> ''daily'' \<and>
                  orZero (i_startHour (resolveClient exDay ?p4))
                    < orZero (startHour x) + orZero (duration x) \<and>
                  orZero (i_startHour (resolveClient exDay ?p4))
                    + orZero (i_duration (resolveClient exDay ?p4)) > orZero (startHour x)))"
    by (simp add: model_defs)
  have g1: "newType ?b3 ?e1 = ''daily'' \<and> ?others ?e1 \<noteq> []"
    by (simp add: model_defs)
  have g2: "newType ?b3 ?e2 \<noteq> ''daily'' \<and> (\<exists>x\<in>set (?others ?e2). bookingType x = ''daily'')"
    by (simp add: model_defs)
  have g3: "newType ?b3 ?e3 \<noteq> ''daily'' \<and>
            \<not> (\<exists>x\<in>set (?others ?e3). bookingType x = ''daily'') \<and>
            (\<exists>x\<in>set (?others ?e3). bookingType x \<noteq> ''daily'' \<and>
               orZero (newStart ?b3 ?e3) < orZero (startHour x) + orZero (duration x) \<and>
               orZero (newStart ?b3 ?e3) + orZero (newDuration ?b3 ?e3) > orZero (startHour x))"
    by (simp add: model_defs)
  have g4: "\<not> (newType ?b3 ?e4 = ''daily'' \<and> ?others ?e4 \<noteq> []) \<and>
            \<not> (newType ?b3 ?e4 \<noteq> ''daily'' \<and>
               (\<exists>x\<in>set (?others ?e4). bookingType x = ''daily'')) \<and>
            \<not> (newType ?b3 ?e4 \<noteq> ''daily'' \<and>
               (\<exists>x\<in>set (?others ?e4). bookingType x \<noteq> ''daily'' \<and>
                  orZero (newStart ?b3 ?e4) < orZero (startHour x) + orZero (duration x) \<and>
                  orZero (newStart ?b3 ?e4) + orZero (newDuration ?b3 ?e4)
                    > orZero (startHour x)))"
    by (simp add: model_defs)
  note C1 = room_date_admission [of exDay ?p1 "''b4''" 9 "''b3''" ?e1, unfolded Let_def]
  note C2 = room_date_admission [of exDay ?p2 "''b4''" 9 "''b3''" ?e2, unfolded Let_def]
  note C3 = room_date_admission [of exDay ?p3 "''b4''" 9 "''b3''" ?e3, unfolded Let_def]
  note C4 = room_date_admission [of exDay ?p4 "''b4''" 9 "''b3''" ?e4, unfolded Let_def]
  note E1 = C1 [THEN conjunct2, THEN spec, THEN mp, OF b3]
  note E2 = C2 [THEN conjunct2, THEN spec, THEN mp, OF b3]
  note E3 = C3 [THEN conjunct2, THEN spec, THEN mp, OF b3]
  note E4 = C4 [THEN conjunct2, THEN spec, THEN mp, OF b3]
  note c1 = C1 [THEN conjunct1, THEN conjunct1, THEN mp, OF h1]
  note c2 = C2 [THEN conjunct1, THEN conjunct2, THEN conjunct1, THEN mp, OF h2]
  note c3 = C3 [THEN conjunct1, THEN conjunct2, THEN conjunct2, THEN conjunct1, THEN mp, OF h3]
  note c4 = C4 [THEN conjunct1, THEN conjunct2, THEN conjunct2, THEN conjunct2, THEN conjunct1,
                THEN mp, OF h4, THEN conjunct2, THEN conjunct2]
  note d1 = E1 [THEN conjunct1, THEN mp, OF g1]
  note d2 = E2 [THEN conjunct2, THEN conjunct1, THEN mp, OF g2]
  note d3 = E3 [THEN conjunct2, THEN conjunct2, THEN conjunct1, THEN mp, OF g3]
  note d4 = E4 [THEN conjunct2, THEN conjunct2, THEN conjunct2, THEN conjunct1,
                THEN mp, OF g4, THEN conjunct2, THEN conjunct2]
  from c1 c2 c3 c4 d1 d2 d3 d4 show ?thesis by (intro conjI)
qed

section \<open>Outcomes of the client check\<close>


lemma clientCheck_daily:
  "clientCheck ''daily'' room st du ub =
     (if \<exists>x\<in>set ub. roomNumber x \<noteq> room then Some ClientBookedElsewhere else None)"
  by (auto simp: clientCheck_def list_ex_iff Let_def)










section \<open>Schedule fields are stored as they come\<close>

lemma resolveClient_schedule:
  "i_roomNumber (resolveClient s body) = i_roomNumber body"
  "i_date (resolveClient s body) = i_date body"
  "i_startHour (resolveClient s body) = i_startHour body"
  "i_duration (resolveClient s body) = i_duration body"
  "i_bookingType (resolveClient s body) = i_bookingType body"
  "i_price (resolveClient s body) = i_price body"
  "i_paidAmount (resolveClient s body) = i_paidAmount body"
  "i_extraTime (resolveClient s body) = i_extraTime body"
  by (simp_all add: resolveClient_def Let_def split: option.splits)

lemma insertAccepted_resolveClient:
  "insertAccepted (resolveClient s body) = insertAccepted body"
  by (simp add: insertAccepted_def resolveClient_schedule)

lemma roomCheck_Nil: "roomCheck ty st du [] = None"
  by (simp add: roomCheck_def)

lemma clientCheck_Nil: "clientCheck ty room st du [] = None"
  by (simp add: clientCheck_def)

lemma getBookingsByRoom_subset:
  "getBookingsByDate s d = [] \<Longrightarrow> getBookingsByRoom s r d = []"
  by (auto simp: getBookingsByDate_def getBookingsByRoom_def filter_empty_conv)

lemma post_bookings_free_date:
  assumes "getBookingsByDate s (i_date body) = []"
  shows "post_bookings s body newId now =
           (if insertAccepted body
            then (s\<lparr>bookings := bookings s @ [insertRow (resolveClient s body) newId now]\<rparr>,
                  Created (insertRow (resolveClient s body) newId now))
            else (s, ServerError))"
proof -
  have room: "getBookingsByRoom s (i_roomNumber (resolveClient s body))
                (i_date (resolveClient s body)) = []"
    using assms by (simp add: resolveClient_schedule getBookingsByRoom_subset)
  have client: "createUserBookings s (resolveClient s body) = []"
    using assms by (simp add: createUserBookings_def resolveClient_schedule)
  show ?thesis
    by (simp add: post_bookings_room_pass room client roomCheck_Nil clientCheck_Nil
          insertAccepted_resolveClient)
qed

lemma put_booking_edit_alone:
  assumes "getBooking s i = Some b"
    and "\<forall>x\<in>set (getBookingsByDate s (newDate b req)). bid x = bid b"
  shows "put_booking_edit s i req =
           (if updateAccepted (newRoom b req) (newStart b req) (newDuration b req)
                 (newPrice b req)
            then (updateBookingDetails s i (newRoom b req) (newDate b req) (newStart b req)
                    (newDuration b req) (newType b req) (newPrice b req), Success)
            else (s, ServerError))"
proof -
  have room: "filter (\<lambda>x. bid x \<noteq> bid b)
                (getBookingsByRoom s (newRoom b req) (newDate b req)) = []"
    using assms(2) by (auto simp: getBookingsByDate_def getBookingsByRoom_def filter_empty_conv)
  have client: "editUserBookings s b (newDate b req) = []"
    using assms(2) by (auto simp: editUserBookings_def filter_empty_conv)
  show ?thesis
    by (simp add: put_booking_edit_room_pass [OF assms(1)] room client roomCheck_Nil
          clientCheck_Nil)
qed

lemma post_bookings_not_created:
  "\<forall>row. snd (post_bookings s body newId now) \<noteq> Created row \<Longrightarrow>
   fst (post_bookings s body newId now) = s"
  by (auto simp: post_bookings_def Let_def createBooking_def split: option.splits if_splits)

lemma put_booking_edit_not_success:
  "snd (put_booking_edit s i req) \<noteq> Success \<Longrightarrow> fst (put_booking_edit s i req) = s"
  by (auto simp: put_booking_edit_def Let_def split: option.splits if_splits)

text \<open>
  Claim C3, as the code has it. Neither handler looks at the duration or at the
  operating window. A create on a date without bookings is accepted and stores the
  start, the duration and the type it carries, whatever they are, as long as its
  integers fit the integer columns; an edit of the only booking on its resulting date,
  to a type other than daily, is accepted and stores the start and the duration it
  resolves to and the price \<open>duration * 200\<close>, as long as these fit. A write whose
  integers do not fit is answered 500. Every answer other than the acceptance leaves
  the state as it was.
\<close>

theorem schedule_not_validated:
  "(getBookingsByDate s (i_date body) = [] \<longrightarrow>
      post_bookings s body newId now =
        (if insertAccepted body
         then (s\<lparr>bookings := bookings s @ [insertRow (resolveClient s body) newId now]\<rparr>,
               Created (insertRow (resolveClient s body) newId now))
         else (s, ServerError))
      \<and> startHour (insertRow (resolveClient s body) newId now) = i_startHour body
      \<and> duration (insertRow (resolveClient s body) newId now) = i_duration body
      \<and> bookingType (insertRow (resolveClient s body) newId now) = i_bookingType body)
   \<and> (\<forall>b. getBooking s i = Some b \<and>
          (\<forall>x\<in>set (getBookingsByDate s (newDate b req)). bid x = bid b) \<and>
          newType b req \<noteq> ''daily'' \<longrightarrow>
          put_booking_edit s i req =
            (if updateAccepted (newRoom b req) (ifDefined (e_startHour req) (startHour b))
                  (ifDefined (e_duration req) (duration b))
                  (orZero (ifDefined (e_duration req) (duration b)) * 200)
             then (updateBookingDetails s i (newRoom b req) (newDate b req)
                     (ifDefined (e_startHour req) (startHour b))
                     (ifDefined (e_duration req) (duration b)) (newType b req)
                     (orZero (ifDefined (e_duration req) (duration b)) * 200), Success)
             else (s, ServerError)))
   \<and> ((\<forall>row. snd (post_bookings s body newId now) \<noteq> Created row) \<longrightarrow>
        fst (post_bookings s body newId now) = s)
   \<and> (snd (put_booking_edit s i req) \<noteq> Success \<longrightarrow> fst (put_booking_edit s i req) = s)"
proof (intro conjI allI impI, goal_cases)
  case 1
  then show ?case by (rule post_bookings_free_date)
next
  case 2
  show ?case by (simp add: insertRow_def resolveClient_schedule)
next
  case 3
  show ?case by (simp add: insertRow_def resolveClient_schedule)
next
  case 4
  show ?case by (simp add: insertRow_def resolveClient_schedule)
next
  case (5 b)
  then have "put_booking_edit s i req =
           (if updateAccepted (newRoom b req) (newStart b req) (newDuration b req)
                 (newPrice b req)
            then (updateBookingDetails s i (newRoom b req) (newDate b req) (newStart b req)
                    (newDuration b req) (newType b req) (newPrice b req), Success)
            else (s, ServerError))"
    by (intro put_booking_edit_alone) blast+
  with 5 show ?case by (simp add: newStart_def newDuration_def newPrice_def)
next
  case 6
  then show ?case by (rule post_bookings_not_created)
next
  case 7
  then show ?case by (rule put_booking_edit_not_success)
qed

theorem schedule_not_validated_witness:
  "post_bookings (exState [] []) (exInsert 1 ''u4'' ''Dan'' None ''2026-03-01'' 0 1 ''hourly'')
     ''b4'' 9
     = (exState [(exBooking ''b4'' 1 ''u4'' ''Dan'' None ''2026-03-01'' 0 1 ''hourly'')
                   \<lparr>createdAt := Some 9\<rparr>] [],
        Created ((exBooking ''b4'' 1 ''u4'' ''Dan'' None ''2026-03-01'' 0 1 ''hourly'')
                   \<lparr>createdAt := Some 9\<rparr>))
   \<and> put_booking_edit exScenarioC ''b1'' (exEdit None (Val 50) (Val 1) None)
     = (exState [(exBooking ''b1'' 1 ''x'' ''Xena'' None ''2026-03-01'' 50 1 ''hourly'')] [],
        Success)
   \<and> put_booking_edit exScenarioC ''b1'' (exEdit None Absent (Val 20000000) None)
     = (exScenarioC, ServerError)
   \<and> fst (post_bookings exDay (exInsert 1 ''u4'' ''Dan'' None ''2026-03-01'' 22 1 ''hourly'')
            ''b4'' 9) = exDay
   \<and> fst (put_booking_edit exDay ''b3'' (exEdit (Some 2) (Val 0) (Val 1) None)) = exDay"
proof -
  let ?p = "exInsert 1 ''u4'' ''Dan'' None ''2026-03-01'' 0 1 ''hourly''"
  let ?q = "exInsert 1 ''u4'' ''Dan'' None ''2026-03-01'' 22 1 ''hourly''"
  let ?e = "exEdit (Some 2) (Val 0) (Val 1) None"
  let ?e' = "exEdit None (Val 50) (Val 1) None"
  let ?big = "exEdit None Absent (Val 20000000) None"
  let ?b1 = "exBooking ''b1'' 1 ''x'' ''Xena'' None ''2026-03-01'' 20 4 ''hourly''"
  note U = schedule_not_validated [of "exState [] []" ?p "''b4''" 9 "''b1''" ?e']
  note V = schedule_not_validated [of exScenarioC ?p "''b4''" 9 "''b1''" ?e']
  note W = schedule_not_validated [of exScenarioC ?p "''b4''" 9 "''b1''" ?big]
  note T = schedule_not_validated [of exDay ?q "''b4''" 9 "''b3''" ?e]
  have h1: "getBookingsByDate (exState [] []) (i_date ?p) = []"
    by (simp add: model_defs)
  have f1: "insertAccepted ?p = True"
    by (simp add: model_defs)
  have h2: "getBooking exScenarioC ''b1'' = Some ?b1 \<and>
            (\<forall>x\<in>set (getBookingsByDate exScenarioC (newDate ?b1 ?e')). bid x = bid ?b1) \<and>
            newType ?b1 ?e' \<noteq> ''daily''"
    by (simp add: model_defs example_defs)
  have f2: "updateAccepted (newRoom ?b1 ?e') (ifDefined (e_startHour ?e') (startHour ?b1))
              (ifDefined (e_duration ?e') (duration ?b1))
              (orZero (ifDefined (e_duration ?e') (duration ?b1)) * 200) = True"
    by (simp add: model_defs)
  have h3: "getBooking exScenarioC ''b1'' = Some ?b1 \<and>
            (\<forall>x\<in>set (getBookingsByDate exScenarioC (newDate ?b1 ?big)). bid x = bid ?b1) \<and>
            newType ?b1 ?big \<noteq> ''daily''"
    by (simp add: model_defs example_defs)
  have f3: "updateAccepted (newRoom ?b1 ?big) (ifDefined (e_startHour ?big) (startHour ?b1))
              (ifDefined (e_duration ?big) (duration ?b1))
              (orZero (ifDefined (e_duration ?big) (duration ?b1)) * 200) = False"
    by (simp add: model_defs)
  have r1: "\<forall>row. snd (post_bookings exDay ?q ''b4'' 9) \<noteq> Created row"
    by (simp add: model_defs)
  have r2: "snd (put_booking_edit exDay ''b3'' ?e) \<noteq> Success"
    by (simp add: model_defs)
  have row: "insertRow (resolveClient (exState [] []) ?p) ''b4'' 9
               = (exBooking ''b4'' 1 ''u4'' ''Dan'' None ''2026-03-01'' 0 1 ''hourly'')
                   \<lparr>createdAt := Some 9\<rparr>"
    by (simp add: model_defs)
  have st: "exState [] []\<lparr>bookings := bookings (exState [] []) @
               [(exBooking ''b4'' 1 ''u4'' ''Dan'' None ''2026-03-01'' 0 1 ''hourly'')
                  \<lparr>createdAt := Some 9\<rparr>]\<rparr>
            = exState [(exBooking ''b4'' 1 ''u4'' ''Dan'' None ''2026-03-01'' 0 1 ''hourly'')
                   \<lparr>createdAt := Some 9\<rparr>] []"
    by (simp add: exState_def)
  have upd: "updateBookingDetails exScenarioC ''b1'' (newRoom ?b1 ?e') (newDate ?b1 ?e')
               (ifDefined (e_startHour ?e') (startHour ?b1))
               (ifDefined (e_duration ?e') (duration ?b1)) (newType ?b1 ?e')
               (orZero (ifDefined (e_duration ?e') (duration ?b1)) * 200)
             = exState [(exBooking ''b1'' 1 ''x'' ''Xena'' None ''2026-03-01'' 50 1 ''hourly'')] []"
    by (simp add: model_defs example_defs)
  note c1 = U [THEN conjunct1, THEN mp, OF h1, THEN conjunct1, unfolded f1 if_True row st]
  note c2 = V [THEN conjunct2, THEN conjunct1, THEN spec, THEN mp, OF h2,
               unfolded f2 if_True upd]
  note c3 = W [THEN conjunct2, THEN conjunct1, THEN spec, THEN mp, OF h3,
               unfolded f3 if_False]
  note c4 = T [THEN conjunct2, THEN conjunct2, THEN conjunct1, THEN mp, OF r1]
  note c5 = T [THEN conjunct2, THEN conjunct2, THEN conjunct2, THEN mp, OF r2]
  from c1 c2 c3 c4 c5 show ?thesis by (intro conjI)
qed

text \<open>
  Claim C3 as stated fails: a create with \<open>startHour = 0\<close> and \<open>duration = 1\<close> on a free
  date is accepted and stored, and so is an edit to \<open>startHour = 50\<close>, \<open>duration = 1\<close>.
\<close>

theorem out_of_window_counterexample:
  "post_bookings (exState [] []) (exInsert 1 ''u4'' ''Dan'' None ''2026-03-01'' 0 1 ''hourly'')
     ''b4'' 9
     = (exState [(exBooking ''b4'' 1 ''u4'' ''Dan'' None ''2026-03-01'' 0 1 ''hourly'')
                   \<lparr>createdAt := Some 9\<rparr>] [],
        Created ((exBooking ''b4'' 1 ''u4'' ''Dan'' None ''2026-03-01'' 0 1 ''hourly'')
                   \<lparr>createdAt := Some 9\<rparr>))
   \<and> put_booking_edit exScenarioC ''b1'' (exEdit None (Val 50) (Val 1) None)
     = (exState [(exBooking ''b1'' 1 ''x'' ''Xena'' None ''2026-03-01'' 50 1 ''hourly'')] [],
        Success)"
  by (simp add: model_defs example_defs)

section \<open>What an edit stores\<close>

lemma getBooking_Some:
  "getBooking s i = Some b \<Longrightarrow> b \<in> set (bookings s) \<and> bid b = i"
  by (auto simp: getBooking_def find_Some_iff in_set_conv_nth)

lemma getBooking_None:
  "getBooking s i = None \<Longrightarrow> \<forall>x\<in>set (bookings s). bid x \<noteq> i"
  by (auto simp: getBooking_def find_None_iff)

lemma put_booking_edit_Success:
  assumes "snd (put_booking_edit s i req) = Success"
  shows "\<exists>b. getBooking s i = Some b \<and>
             fst (put_booking_edit s i req) =
               updateBookingDetails s i (newRoom b req) (newDate b req) (newStart b req)
                 (newDuration b req) (newType b req) (newPrice b req)"
  using assms by (auto simp: put_booking_edit_def Let_def split: option.splits if_splits)

lemma updateBookingDetails_row:
  assumes "x \<in> set (bookings (updateBookingDetails s i room d st du ty pr))" and "bid x = i"
  shows "roomNumber x = room \<and> date x = d \<and> startHour x = st \<and> duration x = du \<and>
         bookingType x = ty \<and> price x = pr"
proof -
  let ?f = "\<lambda>b. if bid b = i
                 then b\<lparr>roomNumber := room, date := d, startHour := st, duration := du,
                        bookingType := ty, price := pr\<rparr>
                 else b"
  from assms(1) have "x \<in> ?f ` set (bookings s)"
    by (simp add: updateBookingDetails_def)
  then obtain b where x: "x = ?f b"
    by blast
  show ?thesis
  proof (cases "bid b = i")
    case True
    with x show ?thesis by simp
  next
    case False
    with x assms(2) show ?thesis by simp
  qed
qed

lemma updateBookingDetails_keeps_id:
  assumes "b \<in> set (bookings s)" and "bid b = i"
  shows "\<exists>x\<in>set (bookings (updateBookingDetails s i room d st du ty pr)). bid x = i"
proof -
  let ?x = "b\<lparr>roomNumber := room, date := d, startHour := st, duration := du,
               bookingType := ty, price := pr\<rparr>"
  have "?x \<in> (\<lambda>b. if bid b = i
                      then b\<lparr>roomNumber := room, date := d, startHour := st,
                             duration := du, bookingType := ty, price := pr\<rparr>
                      else b) ` set (bookings s)"
    using assms by (intro image_eqI [where x = b]) simp_all
  then have "?x \<in> set (bookings (updateBookingDetails s i room d st du ty pr))"
    by (simp add: updateBookingDetails_def)
  moreover have "bid ?x = i"
    using assms(2) by simp
  ultimately show ?thesis by (rule rev_bexI)
qed

lemma resolved_ignore_price:
  "newRoom b (req\<lparr>e_price := p\<rparr>) = newRoom b req"
  "newDate b (req\<lparr>e_price := p\<rparr>) = newDate b req"
  "newType b (req\<lparr>e_price := p\<rparr>) = newType b req"
  "newStart b (req\<lparr>e_price := p\<rparr>) = newStart b req"
  "newDuration b (req\<lparr>e_price := p\<rparr>) = newDuration b req"
  "newPrice b (req\<lparr>e_price := p\<rparr>) = newPrice b req"
  by (simp_all add: newRoom_def newDate_def newType_def newStart_def newDuration_def
        newPrice_def)

lemma put_booking_edit_ignores_price:
  "put_booking_edit s i (req\<lparr>e_price := p\<rparr>) = put_booking_edit s i req"
  unfolding put_booking_edit_def resolved_ignore_price by (rule refl)

text \<open>
  Claim C4. After an accepted edit the edited booking is still stored; if its type is
  daily its start is 20, its duration 24 and its price 3200, whatever start and duration
  the caller sent; otherwise its price is its duration times 200 (a \<open>null\<close> duration
  counting as 0, as \<open>(newDuration || 0) * 200\<close> has it). A price sent by the caller
  changes nothing: the handler does not read it.
\<close>

theorem edit_recomputes_price:
  "(snd (put_booking_edit s i req) = Success \<longrightarrow>
      (\<exists>x\<in>set (bookings (fst (put_booking_edit s i req))). bid x = i) \<and>
      (\<forall>x\<in>set (bookings (fst (put_booking_edit s i req))). bid x = i \<longrightarrow>
         (bookingType x = ''daily'' \<longrightarrow>
            startHour x = Some 20 \<and> duration x = Some 24 \<and> price x = 3200) \<and>
         (bookingType x \<noteq> ''daily'' \<longrightarrow> price x = orZero (duration x) * 200)))
   \<and> put_booking_edit s i (req\<lparr>e_price := p\<rparr>) = put_booking_edit s i req"
proof (intro conjI impI ballI)
  assume ok: "snd (put_booking_edit s i req) = Success"
  from put_booking_edit_Success [OF ok] obtain b where
    b: "getBooking s i = Some b" and
    st: "fst (put_booking_edit s i req) =
           updateBookingDetails s i (newRoom b req) (newDate b req) (newStart b req)
             (newDuration b req) (newType b req) (newPrice b req)"
    by blast
  from getBooking_Some [OF b] show "\<exists>x\<in>set (bookings (fst (put_booking_edit s i req))). bid x = i"
    unfolding st by (intro updateBookingDetails_keeps_id) blast+
  fix x
  assume x: "x \<in> set (bookings (fst (put_booking_edit s i req)))" and xi: "bid x = i"
  from updateBookingDetails_row [OF x [unfolded st] xi]
  have row: "startHour x = newStart b req" "duration x = newDuration b req"
    "bookingType x = newType b req" "price x = newPrice b req"
    by blast+
  {
    assume "bookingType x = ''daily''"
    with row show "startHour x = Some 20" "duration x = Some 24" "price x = 3200"
      by (simp_all add: newStart_def newDuration_def newPrice_def)
  }
  {
    assume "bookingType x \<noteq> ''daily''"
    with row show "price x = orZero (duration x) * 200"
      by (simp add: newPrice_def)
  }
next
  show "put_booking_edit s i (req\<lparr>e_price := p\<rparr>) = put_booking_edit s i req"
    by (rule put_booking_edit_ignores_price)
qed

theorem edit_recomputes_price_witness:
  "startHour (hd (bookings (fst (put_booking_edit exScenarioC ''b1''
       (exEdit None (Val 30) (Val 3) (Some ''daily'')))))) = Some 20
   \<and> duration (hd (bookings (fst (put_booking_edit exScenarioC ''b1''
       (exEdit None (Val 30) (Val 3) (Some ''daily'')))))) = Some 24
   \<and> price (hd (bookings (fst (put_booking_edit exScenarioC ''b1''
       (exEdit None (Val 30) (Val 3) (Some ''daily'')))))) = 3200
   \<and> price (hd (bookings (fst (put_booking_edit exScenarioC ''b1''
       (exEdit None (Val 30) (Val 3) None))))) = 600"
proof -
  let ?e1 = "exEdit None (Val 30) (Val 3) (Some ''daily'')"
  let ?e2 = "exEdit None (Val 30) (Val 3) None"
  let ?x1 = "hd (bookings (fst (put_booking_edit exScenarioC ''b1'' ?e1)))"
  let ?x2 = "hd (bookings (fst (put_booking_edit exScenarioC ''b1'' ?e2)))"
  have ok1: "snd (put_booking_edit exScenarioC ''b1'' ?e1) = Success"
    by (simp add: model_defs example_defs)
  have ok2: "snd (put_booking_edit exScenarioC ''b1'' ?e2) = Success"
    by (simp add: model_defs example_defs)
  have x1: "?x1 \<in> set (bookings (fst (put_booking_edit exScenarioC ''b1'' ?e1)))"
    by (simp add: model_defs example_defs)
  have x2: "?x2 \<in> set (bookings (fst (put_booking_edit exScenarioC ''b1'' ?e2)))"
    by (simp add: model_defs example_defs)
  have i1: "bid ?x1 = ''b1''" and t1: "bookingType ?x1 = ''daily''"
    by (simp_all add: model_defs example_defs)
  have i2: "bid ?x2 = ''b1''" and t2: "bookingType ?x2 \<noteq> ''daily''"
      and d2: "duration ?x2 = Some 3"
    by (simp_all add: model_defs example_defs)
  note A = edit_recomputes_price [of exScenarioC "''b1''" ?e1 "Some 5", THEN conjunct1, THEN mp,
             OF ok1, THEN conjunct2, THEN bspec, OF x1, THEN mp, OF i1]
  note B = edit_recomputes_price [of exScenarioC "''b1''" ?e2 "Some 5", THEN conjunct1, THEN mp,
             OF ok2, THEN conjunct2, THEN bspec, OF x2, THEN mp, OF i2]
  note a = A [THEN conjunct1, THEN mp, OF t1]
  note b = B [THEN conjunct2, THEN mp, OF t2]
  from a b show ?thesis by (simp add: d2 orZero_def)
qed











section \<open>Cancellation\<close>

lemma deleteBooking_absent:
  assumes "getBooking s i = None"
  shows "deleteBooking s i = s"
proof -
  from getBooking_None [OF assms] have "filter (\<lambda>b. bid b \<noteq> i) (bookings s) = bookings s"
    by (intro filter_True) blast
  then show ?thesis by (simp add: deleteBooking_def)
qed

lemma getBooking_deleted: "getBooking (deleteBooking s i) i = None"
  by (simp add: getBooking_def deleteBooking_def find_None_iff)

lemma getBooking_createCancellation:
  "getBooking (createCancellation s c newId now) i = getBooking s i"
  by (simp add: getBooking_def createCancellation_def)

lemma delete_booking_gone:
  "getBooking (fst (delete_booking NoFault s i newId now)) i = None"
proof (cases "getBooking s i")
  case None
  then show ?thesis by (simp add: delete_booking_def deleteBooking_absent)
next
  case (Some b)
  then show ?thesis by (simp add: delete_booking_def Let_def getBooking_deleted)
qed

text \<open>
  Claim C6. When a booking with the identifier exists, a cancel request appends exactly
  one cancellation, whose client, room, date, type and price are the booking's, and
  removes the booking. The snapshot is written first: if writing it fails nothing has
  changed and the booking remains, and if the delete fails the snapshot is already
  there. When no booking has the identifier the request succeeds and the state is as it
  was; this is the case of any second cancel of the same identifier.
\<close>

theorem cancel_snapshot_then_delete:
  "(\<forall>b. getBooking s i = Some b \<longrightarrow>
       delete_booking NoFault s i newId now =
         (s\<lparr>bookings := filter (\<lambda>x. bid x \<noteq> i) (bookings s),
            cancellations := cancellations s @
              [\<lparr>c_id = newId, c_userId = userId b, c_userName = userName b,
                c_userPhone = userPhone b, c_roomNumber = roomNumber b, c_date = date b,
                c_bookingType = bookingType b, c_price = price b,
                c_cancelledAt = Some now\<rparr>]\<rparr>, NoContent)
       \<and> delete_booking CreateCancellationFails s i newId now = (s, ServerError)
       \<and> delete_booking DeleteBookingFails s i newId now =
         (s\<lparr>cancellations := cancellations s @
              [\<lparr>c_id = newId, c_userId = userId b, c_userName = userName b,
                c_userPhone = userPhone b, c_roomNumber = roomNumber b, c_date = date b,
                c_bookingType = bookingType b, c_price = price b,
                c_cancelledAt = Some now\<rparr>]\<rparr>, ServerError))
   \<and> (getBooking s i = None \<longrightarrow> delete_booking NoFault s i newId now = (s, NoContent))
   \<and> delete_booking NoFault (fst (delete_booking NoFault s i newId now)) i newId' now'
       = (fst (delete_booking NoFault s i newId now), NoContent)"
proof (intro conjI allI impI, goal_cases)
  case (1 b)
  then show ?case
    by (simp add: delete_booking_def Let_def createCancellation_def snapshot_def
          deleteBooking_def)
next
  case (2 b)
  then show ?case by (simp add: delete_booking_def)
next
  case (3 b)
  then show ?case
    by (simp add: delete_booking_def Let_def createCancellation_def snapshot_def)
next
  case 4
  then show ?case by (simp add: delete_booking_def deleteBooking_absent)
next
  case 5
  have "getBooking (fst (delete_booking NoFault s i newId now)) i = None"
    by (rule delete_booking_gone)
  then show ?case by (simp add: delete_booking_def deleteBooking_absent)
qed

theorem cancel_snapshot_then_delete_witness:
  "delete_booking NoFault exScenarioC ''b1'' ''c1'' 9
     = (exState [] [\<lparr>c_id = ''c1'', c_userId = ''x'', c_userName = ''Xena'',
                     c_userPhone = None, c_roomNumber = 1, c_date = ''2026-03-01'',
                     c_bookingType = ''hourly'', c_price = 800, c_cancelledAt = Some 9\<rparr>],
        NoContent)
   \<and> delete_booking CreateCancellationFails exScenarioC ''b1'' ''c1'' 9
     = (exScenarioC, ServerError)
   \<and> delete_booking NoFault exScenarioC ''zz'' ''c1'' 9 = (exScenarioC, NoContent)"
proof -
  let ?b1 = "exBooking ''b1'' 1 ''x'' ''Xena'' None ''2026-03-01'' 20 4 ''hourly''"
  have b1: "getBooking exScenarioC ''b1'' = Some ?b1"
    by (simp add: model_defs example_defs)
  have zz: "getBooking exScenarioC ''zz'' = None"
    by (simp add: model_defs example_defs)
  note A = cancel_snapshot_then_delete [of exScenarioC "''b1''" "''c1''" 9 "''c2''" 10,
             THEN conjunct1, THEN spec, THEN mp, OF b1]
  note B = cancel_snapshot_then_delete [of exScenarioC "''zz''" "''c1''" 9 "''c2''" 10,
             THEN conjunct2, THEN conjunct1, THEN mp, OF zz]
  have st: "exScenarioC\<lparr>bookings := filter (\<lambda>x. bid x \<noteq> ''b1'') (bookings exScenarioC),
              cancellations := cancellations exScenarioC @
                [\<lparr>c_id = ''c1'', c_userId = userId ?b1, c_userName = userName ?b1,
                  c_userPhone = userPhone ?b1, c_roomNumber = roomNumber ?b1, c_date = date ?b1,
                  c_bookingType = bookingType ?b1, c_price = price ?b1,
                  c_cancelledAt = Some 9\<rparr>]\<rparr>
            = exState [] [\<lparr>c_id = ''c1'', c_userId = ''x'', c_userName = ''Xena'',
                     c_userPhone = None, c_roomNumber = 1, c_date = ''2026-03-01'',
                     c_bookingType = ''hourly'', c_price = 800, c_cancelledAt = Some 9\<rparr>]"
    by (simp add: model_defs example_defs)
  from A [THEN conjunct1] A [THEN conjunct2, THEN conjunct1] B show ?thesis
    unfolding st by (intro conjI)
qed

section \<open>Merge\<close>

lemma set_insortBy: "set (insortBy le x xs) = insert x (set xs)"
  by (induction xs) auto

lemma set_sortBy: "set (sortBy le xs) = set xs"
  by (induction xs) (simp_all add: sortBy_def set_insortBy)

lemma count_insortBy: "length (filter P (insortBy le x xs)) = length (filter P (x # xs))"
  by (induction xs) auto

lemma count_sortBy: "length (filter P (sortBy le xs)) = length (filter P xs)"
  by (induction xs) (simp_all add: sortBy_def count_insortBy)

lemma mergeBookings_result:
  fixes tgt name phone
  defines "upd \<equiv> \<lambda>r::booking. r\<lparr>userId := tgt, userName := name, userPhone := Some phone\<rparr>"
  shows "mergeBookings src tgt name phone xs (st, n) =
     (st\<lparr>bookings :=
          map (\<lambda>r. if (\<exists>b\<in>set xs. userId b = src \<and> bid b = bid r) then upd r else r)
            (bookings st)\<rparr>,
      n + length (filter (\<lambda>b. userId b = src) xs))"
proof -
  have key: "\<And>r. bid (upd r) = bid r" and idem: "\<And>r. upd (upd r) = upd r"
    by (simp_all add: upd_def)
  have step: "\<And>st i. updateBookingClient st i tgt name phone =
      st\<lparr>bookings := map (\<lambda>r. if bid r = i then upd r else r) (bookings st)\<rparr>"
    by (simp add: updateBookingClient_def upd_def)
  show ?thesis
  proof (induction xs arbitrary: st n)
    case Nil
    show ?case by (simp add: mergeBookings_def)
  next
    case (Cons x xs)
    have unfold: "mergeBookings src tgt name phone (x # xs) (st, n) =
        mergeBookings src tgt name phone xs
          (if userId x = src then (updateBookingClient st (bid x) tgt name phone, n + 1)
           else (st, n))"
      by (simp add: mergeBookings_def)
    show ?case
    proof (cases "userId x = src")
      case True
      have "map (\<lambda>r. if (\<exists>b\<in>set xs. userId b = src \<and> bid b = bid r) then upd r else r)
              (map (\<lambda>r. if bid r = bid x then upd r else r) (bookings st))
          = map (\<lambda>r. if (\<exists>b\<in>set (x # xs). userId b = src \<and> bid b = bid r) then upd r else r)
              (bookings st)"
        using True by (auto simp: key idem)
      with True show ?thesis by (simp add: unfold Cons.IH step)
    next
      case False
      then have "(\<lambda>r. if (\<exists>b\<in>set (x # xs). userId b = src \<and> bid b = bid r) then upd r else r)
          = (\<lambda>r. if (\<exists>b\<in>set xs. userId b = src \<and> bid b = bid r) then upd r else r)"
        by auto
      with False show ?thesis by (simp add: unfold Cons.IH)
    qed
  qed
qed

lemma mergeCancellations_result:
  fixes tgt name phone
  defines "upd \<equiv> \<lambda>r::cancellation.
             r\<lparr>c_userId := tgt, c_userName := name, c_userPhone := Some phone\<rparr>"
  shows "mergeCancellations src tgt name phone xs (st, n) =
     (st\<lparr>cancellations :=
          map (\<lambda>r. if (\<exists>c\<in>set xs. c_userId c = src \<and> c_id c = c_id r) then upd r else r)
            (cancellations st)\<rparr>,
      n + length (filter (\<lambda>c. c_userId c = src) xs))"
proof -
  have key: "\<And>r. c_id (upd r) = c_id r" and idem: "\<And>r. upd (upd r) = upd r"
    by (simp_all add: upd_def)
  have step: "\<And>st i. updateCancellationClient st i tgt name phone =
      st\<lparr>cancellations := map (\<lambda>r. if c_id r = i then upd r else r) (cancellations st)\<rparr>"
    by (simp add: updateCancellationClient_def upd_def)
  show ?thesis
  proof (induction xs arbitrary: st n)
    case Nil
    show ?case by (simp add: mergeCancellations_def)
  next
    case (Cons x xs)
    have unfold: "mergeCancellations src tgt name phone (x # xs) (st, n) =
        mergeCancellations src tgt name phone xs
          (if c_userId x = src then (updateCancellationClient st (c_id x) tgt name phone, n + 1)
           else (st, n))"
      by (simp add: mergeCancellations_def)
    show ?case
    proof (cases "c_userId x = src")
      case True
      have "map (\<lambda>r. if (\<exists>c\<in>set xs. c_userId c = src \<and> c_id c = c_id r) then upd r else r)
              (map (\<lambda>r. if c_id r = c_id x then upd r else r) (cancellations st))
          = map (\<lambda>r. if (\<exists>c\<in>set (x # xs). c_userId c = src \<and> c_id c = c_id r)
                     then upd r else r)
              (cancellations st)"
        using True by (auto simp: key idem)
      with True show ?thesis by (simp add: unfold Cons.IH step)
    next
      case False
      then have "(\<lambda>r. if (\<exists>c\<in>set (x # xs). c_userId c = src \<and> c_id c = c_id r)
                      then upd r else r)
          = (\<lambda>r. if (\<exists>c\<in>set xs. c_userId c = src \<and> c_id c = c_id r) then upd r else r)"
        by auto
      with False show ?thesis by (simp add: unfold Cons.IH)
    qed
  qed
qed

lemma same_key_same_row:
  assumes "distinct (map key tbl)" and "r \<in> set tbl"
  shows "(\<exists>b\<in>set tbl. P b \<and> key b = key r) \<longleftrightarrow> P r"
proof
  assume "\<exists>b\<in>set tbl. P b \<and> key b = key r"
  then obtain b where b: "b \<in> set tbl" "P b" "key b = key r" by blast
  from assms(1) have "inj_on key (set tbl)" by (simp add: distinct_map)
  from inj_onD [OF this b(3) b(1) assms(2)] b(2) show "P r" by simp
next
  assume "P r"
  with assms(2) show "\<exists>b\<in>set tbl. P b \<and> key b = key r" by blast
qed

lemma map_by_key:
  assumes "distinct (map key tbl)"
  shows "map (\<lambda>r. if (\<exists>b\<in>set tbl. P b \<and> key b = key r) then f r else r) tbl
       = map (\<lambda>r. if P r then f r else r) tbl"
  using same_key_same_row [OF assms] by (intro map_cong refl) simp

lemma post_merge_clients_result:
  assumes "m_sourceUserId req = Some src" "src \<noteq> []"
    and "m_targetUserId req = Some tgt" "tgt \<noteq> []"
    and "distinct (map bid (bookings s))" "distinct (map c_id (cancellations s))"
  shows "post_merge_clients s req =
     (s\<lparr>bookings :=
          map (\<lambda>b. if userId b = src
                   then b\<lparr>userId := tgt, userName := m_targetUserName req,
                          userPhone := Some (normalizePhone (m_targetUserPhone req))\<rparr>
                   else b) (bookings s),
        cancellations :=
          map (\<lambda>c. if c_userId c = src
                   then c\<lparr>c_userId := tgt, c_userName := m_targetUserName req,
                          c_userPhone := Some (normalizePhone (m_targetUserPhone req))\<rparr>
                   else c) (cancellations s)\<rparr>,
      SuccessCount (length (filter (\<lambda>b. userId b = src) (bookings s)) +
                    length (filter (\<lambda>c. c_userId c = src) (cancellations s))))"
proof -
  have "post_merge_clients s req =
      (let acc1 = mergeBookings src tgt (m_targetUserName req)
                    (normalizePhone (m_targetUserPhone req)) (getBookings s) (s, 0);
           acc2 = mergeCancellations src tgt (m_targetUserName req)
                    (normalizePhone (m_targetUserPhone req)) (getCancellations s) acc1
       in (fst acc2, SuccessCount (snd acc2)))"
    using assms(1-4) by (simp add: post_merge_clients_def Let_def)
  then show ?thesis
    by (simp add: Let_def mergeBookings_result mergeCancellations_result getBookings_def
          getCancellations_def set_sortBy count_sortBy
          map_by_key [OF assms(5), where P = "\<lambda>b. userId b = src"]
          map_by_key [OF assms(6), where P = "\<lambda>c. c_userId c = src"])
qed

lemma post_merge_clients_guard:
  "\<not> truthy (m_sourceUserId req) \<or> \<not> truthy (m_targetUserId req) \<Longrightarrow>
   post_merge_clients s req = (s, BadRequest)"
  by (auto simp: post_merge_clients_def truthy_def split: option.splits)

text \<open>
  Claim C9, as the code has it. A merge request whose source or target identifier is
  missing or empty is answered 400 and changes nothing. For a request with both
  identifiers given and not empty (equal or not), on tables whose \<open>id\<close>s are distinct
  (they are primary keys): every booking and every cancellation whose \<open>userId\<close> was the
  source carries the target's identifier, the target's name and the normalised target
  phone; every other row and field is as it was; and the count returned is the number
  of bookings plus the number of cancellations whose \<open>userId\<close> was the source. The
  result is written whatever conflicts it creates: no answer of the handler refuses a
  merge on the bookings' rooms or times.
\<close>

theorem merge_reassigns_source_rows:
  "(\<not> truthy (m_sourceUserId req) \<or> \<not> truthy (m_targetUserId req) \<longrightarrow>
      post_merge_clients s req = (s, BadRequest))
   \<and> (m_sourceUserId req = Some src \<and> src \<noteq> [] \<and> m_targetUserId req = Some tgt \<and> tgt \<noteq> [] \<and>
       distinct (map bid (bookings s)) \<and> distinct (map c_id (cancellations s)) \<longrightarrow>
      post_merge_clients s req =
        (s\<lparr>bookings :=
             map (\<lambda>b. if userId b = src
                      then b\<lparr>userId := tgt, userName := m_targetUserName req,
                             userPhone := Some (normalizePhone (m_targetUserPhone req))\<rparr>
                      else b) (bookings s),
           cancellations :=
             map (\<lambda>c. if c_userId c = src
                      then c\<lparr>c_userId := tgt, c_userName := m_targetUserName req,
                             c_userPhone := Some (normalizePhone (m_targetUserPhone req))\<rparr>
                      else c) (cancellations s)\<rparr>,
         SuccessCount (length (filter (\<lambda>b. userId b = src) (bookings s)) +
                       length (filter (\<lambda>c. c_userId c = src) (cancellations s)))))"
proof (intro conjI impI, goal_cases)
  case 1
  then show ?case by (rule post_merge_clients_guard)
next
  case 2
  then show ?case by (intro post_merge_clients_result) blast+
qed

theorem merge_reassigns_source_rows_witness:
  "post_merge_clients exClients (exMerge ''u1'' ''u2'')
     = (exState
          [exBooking ''b1'' 1 ''u2'' ''Bob'' (Some ''9123456789'') ''2026-03-01'' 20 2 ''hourly'',
           exBooking ''b2'' 2 ''u2'' ''Bob'' None ''2026-03-01'' 20 2 ''hourly'']
          [exCancellation ''c1'' ''u2'' ''Bob'' (Some ''9123456789'') 7,
           exCancellation ''c2'' ''u2'' ''Bob'' None 8],
        SuccessCount 2)
   \<and> post_merge_clients exClients (exMerge [] ''u2'') = (exClients, BadRequest)"
proof -
  let ?req = "exMerge ''u1'' ''u2''"
  let ?bad = "exMerge [] ''u2''"
  have h: "m_sourceUserId ?req = Some ''u1'' \<and> ''u1'' \<noteq> [] \<and>
           m_targetUserId ?req = Some ''u2'' \<and> ''u2'' \<noteq> [] \<and>
           distinct (map bid (bookings exClients)) \<and>
           distinct (map c_id (cancellations exClients))"
    by (simp add: model_defs example_defs)
  have g: "\<not> truthy (m_sourceUserId ?bad) \<or> \<not> truthy (m_targetUserId ?bad)"
    by (simp add: model_defs example_defs)
  note A = merge_reassigns_source_rows [of ?req exClients "''u1''" "''u2''", THEN conjunct2,
             THEN mp, OF h]
  note B = merge_reassigns_source_rows [of ?bad exClients "''u1''" "''u2''", THEN conjunct1,
             THEN mp, OF g]
  have st: "exClients\<lparr>bookings :=
             map (\<lambda>b. if userId b = ''u1''
                      then b\<lparr>userId := ''u2'', userName := m_targetUserName ?req,
                             userPhone := Some (normalizePhone (m_targetUserPhone ?req))\<rparr>
                      else b) (bookings exClients),
           cancellations :=
             map (\<lambda>c. if c_userId c = ''u1''
                      then c\<lparr>c_userId := ''u2'', c_userName := m_targetUserName ?req,
                             c_userPhone := Some (normalizePhone (m_targetUserPhone ?req))\<rparr>
                      else c) (cancellations exClients)\<rparr>
         = exState
          [exBooking ''b1'' 1 ''u2'' ''Bob'' (Some ''9123456789'') ''2026-03-01'' 20 2 ''hourly'',
           exBooking ''b2'' 2 ''u2'' ''Bob'' None ''2026-03-01'' 20 2 ''hourly'']
          [exCancellation ''c1'' ''u2'' ''Bob'' (Some ''9123456789'') 7,
           exCancellation ''c2'' ''u2'' ''Bob'' None 8]"
    by (simp add: model_defs example_defs)
  have n: "length (filter (\<lambda>b. userId b = ''u1'') (bookings exClients)) +
           length (filter (\<lambda>c. c_userId c = ''u1'') (cancellations exClients)) = 2"
    by (simp add: model_defs example_defs)
  from A B show ?thesis
    unfolding st n by (intro conjI)
qed

text \<open>
  Claim C9 as stated fails for a request whose target identifier is empty: source
  \<open>u1\<close> and target \<open>''\<close> are distinct, the answer is 400, and the booking of \<open>u1\<close>
  keeps its \<open>userId\<close>.
\<close>

theorem merge_empty_target_counterexample:
  "post_merge_clients exClients (exMerge ''u1'' []) = (exClients, BadRequest)
   \<and> ''u1'' \<noteq> ([] :: string)
   \<and> userId (hd (bookings exClients)) = ''u1''
   \<and> userId (hd (bookings (fst (post_merge_clients exClients (exMerge ''u1'' []))))) \<noteq> []"
  by (simp add: model_defs example_defs merge_defs)

section \<open>Who counts as the same client\<close>









section \<open>Running the clean-up twice\<close>

text \<open>
  Claim C8 says that a second run of the clean-up updates nothing and changes nothing.
  The code does otherwise on two inputs.

  In \<open>exDuplicates\<close> two walk-in bookings share a name; the first, with phone
  \<open>9000000000\<close>, is the canonical one, and the second has the phone \<open>89123456789\<close>. The
  first run moves the second booking to the canonical client, and then the loop that
  normalises phones writes it again from the list read at the start, with its old
  \<open>userId\<close>. The second run moves it once more: one update, and a state that differs
  from the state after the first run.

  In \<open>exCancelled\<close> a walk-in booking without a phone has a cancellation under the same
  name, also without a phone. The branch for a cancellation without a phone writes the
  row on every run: the second run counts one update.
\<close>

theorem cleanup_second_run_updates:
  "snd (post_cleanup_duplicates exDuplicates) = SuccessCount 2
   \<and> snd (post_cleanup_duplicates (fst (post_cleanup_duplicates exDuplicates)))
       = SuccessCount 1
   \<and> fst (post_cleanup_duplicates (fst (post_cleanup_duplicates exDuplicates)))
       \<noteq> fst (post_cleanup_duplicates exDuplicates)
   \<and> snd (post_cleanup_duplicates (fst (post_cleanup_duplicates exCancelled)))
       = SuccessCount 1"
proof -
  have first: "fst (post_cleanup_duplicates exDuplicates) = exState
     [exBooking ''b1'' 1 ''walk_in_1'' ''Ann'' (Some ''9000000000'') ''2026-03-01'' 20 2 ''hourly'',
      exBooking ''b2'' 2 ''walk_in_2'' ''Ann'' (Some ''9123456789'') ''2026-03-01'' 24 2 ''hourly'']
     []"
    and n1: "snd (post_cleanup_duplicates exDuplicates) = SuccessCount 2"
    by (simp_all add: dedup_defs model_defs example_defs)
  have second: "post_cleanup_duplicates (exState
     [exBooking ''b1'' 1 ''walk_in_1'' ''Ann'' (Some ''9000000000'') ''2026-03-01'' 20 2 ''hourly'',
      exBooking ''b2'' 2 ''walk_in_2'' ''Ann'' (Some ''9123456789'') ''2026-03-01'' 24 2 ''hourly'']
     []) = (exState
     [exBooking ''b1'' 1 ''walk_in_1'' ''Ann'' (Some ''9000000000'') ''2026-03-01'' 20 2 ''hourly'',
      exBooking ''b2'' 2 ''walk_in_1'' ''Ann'' (Some ''9000000000'') ''2026-03-01'' 24 2 ''hourly'']
     [], SuccessCount 1)"
    by (simp add: dedup_defs model_defs example_defs)
  have differ: "exState
     [exBooking ''b1'' 1 ''walk_in_1'' ''Ann'' (Some ''9000000000'') ''2026-03-01'' 20 2 ''hourly'',
      exBooking ''b2'' 2 ''walk_in_1'' ''Ann'' (Some ''9000000000'') ''2026-03-01'' 24 2 ''hourly'']
     [] \<noteq> exState
     [exBooking ''b1'' 1 ''walk_in_1'' ''Ann'' (Some ''9000000000'') ''2026-03-01'' 20 2 ''hourly'',
      exBooking ''b2'' 2 ''walk_in_2'' ''Ann'' (Some ''9123456789'') ''2026-03-01'' 24 2 ''hourly'']
     []"
    by (simp add: exState_def exBooking_def)
  have cfirst: "fst (post_cleanup_duplicates exCancelled) = exState
     [exBooking ''b1'' 1 ''walk_in_1'' ''Ann'' None ''2026-03-01'' 20 2 ''hourly'']
     [exCancellation ''c1'' ''walk_in_1'' ''Ann'' (Some []) 7]"
    by (simp add: dedup_defs model_defs example_defs)
  have csecond: "snd (post_cleanup_duplicates (exState
     [exBooking ''b1'' 1 ''walk_in_1'' ''Ann'' None ''2026-03-01'' 20 2 ''hourly'']
     [exCancellation ''c1'' ''walk_in_1'' ''Ann'' (Some []) 7])) = SuccessCount 1"
    by (simp add: dedup_defs model_defs example_defs)
  show ?thesis
    unfolding first cfirst second csecond n1 using differ by simp
qed

end
